theory Spec2Isabelle
  imports Main
begin

section \<open>Bytes and errors\<close>

text \<open>
  A Go byte slice is a list of characters; a Go \<^verbatim>\<open>error\<close> is a value of the
  datatype below, \<^verbatim>\<open>nil\<close> being \<open>None\<close> of \<open>error option\<close>.
  \<open>EOF\<close>, \<open>ErrUnexpectedEOF\<close> and \<open>ErrShortWrite\<close> are the sentinels of Go's
  package io, \<open>ErrNoHostProvided\<close> the one of package header. \<open>New msg\<close> is
  \<^verbatim>\<open>errors.New(msg)\<close>, \<open>Errorf msg e\<close> is \<^verbatim>\<open>fmt.Errorf(msg + "%s", e)\<close>,
  \<open>ErrUnexpectedChar c x\<close> is
  \<^verbatim>\<open>fmt.Errorf("unexpected char %q at the end of chunk size. Expected %q", c, x)\<close>,
  and \<open>NetErr msg\<close> is an error of a network connection.
\<close>

type_synonym bytes = string

abbreviation CR :: char where "CR \<equiv> CHR 0x0D"
abbreviation LF :: char where "LF \<equiv> CHR 0x0A"

definition strCRLF :: bytes where
  "strCRLF = [CR, LF]"

datatype error =
    EOF
  | ErrUnexpectedEOF
  | ErrShortWrite
  | ErrNoHostProvided
  | New string
  | Errorf string error
  | ErrUnexpectedChar char char
  | NetErr string

text \<open>What a call does: it returns an error (or nil), or it panics.\<close>

datatype outcome = Return "error option" | Panic string

section \<open>bufio.Reader, bufio.Writer and the sniffer\<close>

text \<open>
  A \<^verbatim>\<open>*bufio.Reader\<close>: the bytes it has buffered and not yet handed out, the
  chunks that the next reads of the underlying connection will deliver, in order, and
  the error the connection gives once they are used up (\<open>EOF\<close> for a closed stream).
\<close>

record Reader =
  buffered :: bytes
  feed :: "bytes list"
  rerr :: error

text \<open>Every byte the reader will ever hand out.\<close>

definition avail :: "Reader \<Rightarrow> bytes" where
  "avail r = buffered r @ concat (feed r)"

definition Buffered :: "Reader \<Rightarrow> nat" where
  "Buffered r = length (buffered r)"

text \<open>
  \<^verbatim>\<open>Peek(n)\<close> fills the buffer from the connection until it holds \<open>n\<close> bytes or the
  connection fails; it returns the first \<open>n\<close> buffered bytes, or all of them with the
  error when there are fewer. Nothing is consumed.
\<close>

function Peek :: "nat \<Rightarrow> Reader \<Rightarrow> (bytes \<times> error option) \<times> Reader" where
  "Peek n r =
     (if n \<le> length (buffered r) then ((take n (buffered r), None), r)
      else (case feed r of
              [] \<Rightarrow> ((buffered r, Some (rerr r)), r)
            | c # cs \<Rightarrow> Peek n (r\<lparr>buffered := buffered r @ c, feed := cs\<rparr>)))"
  by pat_completeness auto
termination
  by (relation "measure (\<lambda>(n, r). length (feed r))") auto

text \<open>
  \<^verbatim>\<open>Discard(n)\<close> skips the next \<open>n\<close> bytes and returns how many it skipped, with the
  error when there were fewer.
\<close>

definition Discard :: "nat \<Rightarrow> Reader \<Rightarrow> (nat \<times> error option) \<times> Reader" where
  "Discard n r =
     (case Peek n r of
        ((b, e), r') \<Rightarrow> ((length b, e), r'\<lparr>buffered := drop (length b) (buffered r')\<rparr>))"

text \<open>\<^verbatim>\<open>ReadByte()\<close> hands out the next byte.\<close>

definition ReadByte :: "Reader \<Rightarrow> (error + char) \<times> Reader" where
  "ReadByte r =
     (case Peek 1 r of
        ((b, e), r') \<Rightarrow>
          (case b of
             [] \<Rightarrow> (Inl (case e of None \<Rightarrow> EOF | Some x \<Rightarrow> x), r')
           | c # _ \<Rightarrow> (Inr c, r'\<lparr>buffered := tl (buffered r')\<rparr>)))"

text \<open>
  A \<^verbatim>\<open>*bufio.Writer\<close> (or a raw socket written to): the bytes it has accepted, how
  many more it accepts before the connection under it fails (\<open>None\<close>: it never fails),
  and the error it then gives. A write that fails reports the bytes accepted before
  the failure together with the error.
\<close>

record Writer =
  written :: bytes
  room :: "nat option"
  werr :: error

definition Write :: "bytes \<Rightarrow> Writer \<Rightarrow> (nat \<times> error option) \<times> Writer" where
  "Write p w =
     (case room w of
        None \<Rightarrow> ((length p, None), w\<lparr>written := written w @ p\<rparr>)
      | Some k \<Rightarrow>
          if length p \<le> k
          then ((length p, None), w\<lparr>written := written w @ p, room := Some (k - length p)\<rparr>)
          else ((k, Some (werr w)), w\<lparr>written := written w @ take k p, room := Some 0\<rparr>))"

text \<open>
  The sniffer observes the traffic: the model keeps, in order, the calls it received.
\<close>

datatype sniffed = ReqLine bytes | RespLine bytes | HeaderBytes bytes | Body bytes

type_synonym Sniffer = "sniffed list"

text \<open>The body bytes a sniffer has seen, in order.\<close>

fun bodyBytes :: "Sniffer \<Rightarrow> bytes" where
  "bodyBytes [] = []"
| "bodyBytes (Body b # s) = b @ bodyBytes s"
| "bodyBytes (_ # s) = bodyBytes s"

section \<open>Request and Response\<close>

text \<open>
  Modelled from the spec: the types \<^verbatim>\<open>header.RequestLine\<close> and \<^verbatim>\<open>header.Header\<close>
  are not among the source files. The request line is the spec's "parsed request-line
  (method, raw URI, host[:port], HTTP version)"; the header block is what its four
  accessors \<^verbatim>\<open>ContentLength()\<close>, \<^verbatim>\<open>IsBodyChunked()\<close>, \<^verbatim>\<open>IsBodyIdentity()\<close> and
  \<^verbatim>\<open>IsConnectionClose()\<close> return, which is all that the code under verification
  reads of it. \<open>Reset\<close> gives the empty value back.
\<close>

record RequestLine =
  reqMethod :: bytes
  rawURI :: bytes
  hostWithPort :: string
  protocol :: bytes

definition RequestLine_Reset :: "RequestLine \<Rightarrow> RequestLine" where
  "RequestLine_Reset rl = \<lparr>reqMethod = [], rawURI = [], hostWithPort = [], protocol = []\<rparr>"

definition IsConnect :: "RequestLine \<Rightarrow> bool" where
  "IsConnect rl = (reqMethod rl = ''CONNECT'')"

record Header =
  ContentLength :: int
  IsBodyChunked :: bool
  IsBodyIdentity :: bool
  IsConnectionClose :: bool

definition Header_Reset :: "Header \<Rightarrow> Header" where
  "Header_Reset h =
     \<lparr>ContentLength = 0, IsBodyChunked = False, IsBodyIdentity = False,
      IsConnectionClose = False\<rparr>"

text \<open>
  \<^verbatim>\<open>RequestLine.Parse(reader, hostWithPort)\<close> is not among the source files either:
  the functions that call it take it as a parameter. It returns its error, the request
  line it filled in and the reader as it left it.
\<close>

type_synonym reqline_parser =
  "RequestLine \<Rightarrow> Reader \<Rightarrow> string \<Rightarrow> error option \<times> RequestLine \<times> Reader"

record Request =
  reader :: "Reader option"
  reqLine :: RequestLine
  header :: Header
  sniffer :: Sniffer
  isTLS :: bool
  tlsServerName :: string

text \<open>The zero value \<^verbatim>\<open>&Request{}\<close>.\<close>

definition emptyRequest :: Request where
  "emptyRequest =
     \<lparr>reader = None,
      reqLine = \<lparr>reqMethod = [], rawURI = [], hostWithPort = [], protocol = []\<rparr>,
      header = \<lparr>ContentLength = 0, IsBodyChunked = False, IsBodyIdentity = False,
                IsConnectionClose = False\<rparr>,
      sniffer = [], isTLS = False, tlsServerName = []\<rparr>"

text \<open>
  \<^verbatim>\<open>initWithReader\<close>: the result is the error, the request as the call leaves it, and
  the caller's reader as the call leaves it (the parser has read from it, also when it
  failed).
\<close>

definition initWithReader ::
  "reqline_parser \<Rightarrow> Request \<Rightarrow> Reader option \<Rightarrow> Sniffer \<Rightarrow> bool \<Rightarrow> string \<Rightarrow> string
     \<Rightarrow> error option \<times> Request \<times> Reader option" where
  "initWithReader parse r rd sn tls hostPort serverName =
     (if reader r \<noteq> None then (Some (New ''request already initialized''), r, rd)
      else (case rd of
              None \<Rightarrow> (Some (New ''nil reader provided''), r, rd)
            | Some rd0 \<Rightarrow>
                if tls \<and> length serverName = 0
                then (Some (New ''empty tls server name provided''), r, rd)
                else (case parse (reqLine r) rd0 hostPort of
                        (Some err, rl, rd1) \<Rightarrow>
                          (if err = ErrNoHostProvided then Some err
                           else Some (Errorf ''fail to read start line of request with error '' err),
                           r\<lparr>reqLine := rl\<rparr>, Some rd1)
                      | (None, rl, rd1) \<Rightarrow>
                          (None,
                           r\<lparr>reqLine := rl, reader := Some rd1, sniffer := sn, isTLS := tls,
                             tlsServerName := serverName\<rparr>,
                           Some rd1))))"

definition InitWithProxyReader ::
  "reqline_parser \<Rightarrow> Request \<Rightarrow> Reader option \<Rightarrow> Sniffer
     \<Rightarrow> error option \<times> Request \<times> Reader option" where
  "InitWithProxyReader parse r rd sn = initWithReader parse r rd sn False [] []"

definition InitWithTLSClientReader ::
  "reqline_parser \<Rightarrow> Request \<Rightarrow> Reader option \<Rightarrow> Sniffer \<Rightarrow> string \<Rightarrow> string
     \<Rightarrow> error option \<times> Request \<times> Reader option" where
  "InitWithTLSClientReader parse r rd sn hostPort serverName =
     initWithReader parse r rd sn True hostPort serverName"

definition Reset :: "Request \<Rightarrow> Request" where
  "Reset r =
     r\<lparr>reader := None, reqLine := RequestLine_Reset (reqLine r),
       header := Header_Reset (header r)\<rparr>"

definition IsTLS :: "Request \<Rightarrow> bool" where
  "IsTLS r = isTLS r"

definition TLSServerName :: "Request \<Rightarrow> string" where
  "TLSServerName r = tlsServerName r"

definition ConnectionClose :: "Request \<Rightarrow> bool" where
  "ConnectionClose r = IsConnectionClose (header r)"

text \<open>
  The request pool (\<^verbatim>\<open>sync.Pool\<close>) holds the released requests; \<^verbatim>\<open>AcquireRequest\<close>
  takes one of them, or makes a new one when the pool has none.
\<close>

definition AcquireRequest :: "Request list \<Rightarrow> Request \<times> Request list" where
  "AcquireRequest pool = (case pool of [] \<Rightarrow> (emptyRequest, []) | v # vs \<Rightarrow> (v, vs))"

definition ReleaseRequest :: "Request \<Rightarrow> Request list \<Rightarrow> Request list" where
  "ReleaseRequest req pool = Reset req # pool"

text \<open>
  Modelled from the spec: \<^verbatim>\<open>header.ResponseLine\<close> is not among the source files; it is
  the spec's "parsed response-line (version, status code, reason)".
\<close>

record ResponseLine =
  respProtocol :: bytes
  statusCode :: nat
  reason :: bytes

record Response =
  writer :: "Writer option"
  respSniffer :: Sniffer
  respLine :: ResponseLine
  respHeader :: Header

definition emptyResponse :: Response where
  "emptyResponse =
     \<lparr>writer = None, respSniffer = [],
      respLine = \<lparr>respProtocol = [], statusCode = 0, reason = []\<rparr>,
      respHeader = \<lparr>ContentLength = 0, IsBodyChunked = False, IsBodyIdentity = False,
                    IsConnectionClose = False\<rparr>\<rparr>"

definition InitWithWriter ::
  "Response \<Rightarrow> Writer option \<Rightarrow> Sniffer \<Rightarrow> error option \<times> Response" where
  "InitWithWriter r w sn =
     (if writer r \<noteq> None then (Some (New ''response already initialized''), r)
      else (case w of
              None \<Rightarrow> (Some (New ''nil writer provided''), r)
            | Some _ \<Rightarrow> (None, r\<lparr>writer := w, respSniffer := sn\<rparr>)))"

definition Response_ConnectionClose :: "Response \<Rightarrow> bool" where
  "Response_ConnectionClose r = False"

section \<open>The body copier\<close>

subsection \<open>Facts about the reader and the writer\<close>

declare Peek.simps [simp del]

lemma Peek_props:
  "Peek n r = ((b, e), r') \<Longrightarrow>
     avail r' = avail r \<and> rerr r' = rerr r \<and> b = take n (buffered r') \<and>
     (e = None \<longrightarrow> n \<le> length (buffered r')) \<and>
     (e \<noteq> None \<longrightarrow> feed r' = [] \<and> length (buffered r') < n \<and> e = Some (rerr r))"
proof (induction n r rule: Peek.induct)
  case (1 n r)
  show ?case
  proof (cases "n \<le> length (buffered r)")
    case True
    with "1.prems" show ?thesis by (auto simp: Peek.simps [of n r])
  next
    case False
    note nle = this
    show ?thesis
    proof (cases "feed r")
      case Nil
      with nle "1.prems" show ?thesis by (auto simp: avail_def Peek.simps [of n r])
    next
      case (Cons c cs)
      with nle "1.prems" have "Peek n (r\<lparr>buffered := buffered r @ c, feed := cs\<rparr>) = ((b, e), r')"
        by (simp add: Peek.simps [of n r])
      from "1.IH" [OF nle Cons this] Cons show ?thesis
        by (simp add: avail_def)
    qed
  qed
qed

lemma Peek_Buffered: "Peek (Buffered r) r = ((buffered r, None), r)"
  by (simp add: Buffered_def Peek.simps [of _ r])

lemma Discard_avail:
  "Discard n r = ((k, e), r') \<Longrightarrow>
     avail r' = drop k (avail r) \<and> k \<le> length (avail r) \<and> k \<le> n \<and> (e = None \<longrightarrow> k = n)"
proof -
  assume d: "Discard n r = ((k, e), r')"
  obtain b e0 r0 where p: "Peek n r = ((b, e0), r0)"
    by (metis prod.exhaust)
  from d p have k: "k = length b" and e: "e = e0"
    and r': "r' = r0\<lparr>buffered := drop (length b) (buffered r0)\<rparr>"
    by (auto simp: Discard_def)
  from Peek_props [OF p] have a: "avail r0 = avail r" and b: "b = take n (buffered r0)"
    and n: "e0 = None \<longrightarrow> n \<le> length (buffered r0)"
    by simp_all
  have "length b \<le> length (buffered r0)" using b by simp
  then have "avail r' = drop (length b) (avail r0)"
    by (simp add: r' avail_def)
  moreover have "length b \<le> length (avail r0)" using b by (simp add: avail_def)
  moreover have "length b \<le> n" using b by simp
  moreover have "e0 = None \<longrightarrow> length b = n" using b n by simp
  ultimately show ?thesis using a k e by simp
qed

text \<open>A writer accepts \<open>n\<close> more bytes without failing.\<close>

definition accepts :: "Writer \<Rightarrow> nat \<Rightarrow> bool" where
  "accepts w n = (case room w of None \<Rightarrow> True | Some k \<Rightarrow> n \<le> k)"

subsection \<open>copyBodyFixedSize\<close>

text \<open>
  The loop of \<^verbatim>\<open>copyBodyFixedSize\<close>, one call per iteration. The result is what the
  call does, and the reader, the writer and the sniffer as it leaves them.
  \<open>byteStillNeeded\<close> is an \<^verbatim>\<open>int64\<close>: it only decreases from the content length
  towards 0, so no arithmetic wraps. Slicing \<^verbatim>\<open>b[:bytesShouldRead]\<close> with a negative
  bound panics.
\<close>

function copyBodyFixedSize ::
  "Reader \<Rightarrow> Writer \<Rightarrow> int \<Rightarrow> Sniffer \<Rightarrow> outcome \<times> Reader \<times> Writer \<times> Sniffer" where
  "copyBodyFixedSize src dst byteStillNeeded sn =
     (case Peek 1 src of
        ((b1, _), src1) \<Rightarrow>
          if length b1 = 0 then (Return (Some EOF), src1, dst, sn)
          else (case Peek (Buffered src1) src1 of
                  ((b, err), src2) \<Rightarrow>
                    if length b = 0 \<or> err \<noteq> None
                    then (Panic ''bufio.Reader.Peek() returned unexpected data'', src2, dst, sn)
                    else
                      let bytesShouldRead =
                            (if byteStillNeeded \<le> int (length b) then byteStillNeeded
                             else int (length b));
                          stillNeeded = byteStillNeeded - bytesShouldRead
                      in if bytesShouldRead < 0
                         then (Panic ''slice bounds out of range'', src2, dst, sn)
                         else (case Write (take (nat bytesShouldRead) b) dst of
                                 ((bytesShouldWrite, Some e), dst1) \<Rightarrow>
                                   (Return (Some (Errorf ''fail to write request body : '' e)),
                                    src2, dst1, sn)
                               | ((bytesShouldWrite, None), dst1) \<Rightarrow>
                                   if int bytesShouldWrite \<noteq> bytesShouldRead
                                   then (Return (Some ErrShortWrite), src2, dst1, sn)
                                   else (case Discard bytesShouldWrite src2 of
                                           ((_, Some e), src3) \<Rightarrow>
                                             (Panic ''bufio.Reader.Discard failed'', src3, dst1,
                                              sn @ [Body (take (nat bytesShouldRead) b)])
                                         | ((_, None), src3) \<Rightarrow>
                                             if stillNeeded = 0
                                             then (Return None, src3, dst1,
                                                   sn @ [Body (take (nat bytesShouldRead) b)])
                                             else copyBodyFixedSize src3 dst1 stillNeeded
                                                    (sn @ [Body (take (nat bytesShouldRead) b)])))))"
  by pat_completeness auto
termination
proof (relation "measure (\<lambda>(src, dst, n, sn). length (avail src))", goal_cases)
  case 1
  show ?case by simp
next
  case prems: (2 src dst needed sn x src1 b1 e1 y src2 b err n n' z dst1 k we v src3 u ue)
  from prems(1,2) have "Peek (Suc 0) src = ((b1, e1), src1)" by simp
  then have a1: "avail src1 = avail src"
    using Peek_props by blast
  from prems(4) have a2: "src2 = src1"
    by (simp add: Peek_Buffered)
  from prems(14,15,16) have "Discard k src2 = ((u, None), src3)" by simp
  then have a3: "avail src3 = drop k (avail src2)" and le: "k \<le> length (avail src2)"
    using Discard_avail by blast+
  from prems(7,8,17) have "n = int (length b)" by (auto split: if_splits)
  with prems(6,13) have "0 < k" by simp
  with a1 a2 a3 le show ?case by simp
qed


declare copyBodyFixedSize.simps [simp del]

lemma bodyBytes_append: "bodyBytes (s @ t) = bodyBytes s @ bodyBytes t"
  by (induction s rule: bodyBytes.induct) simp_all

lemma Write_props:
  "Write p w = ((nn, e), w') \<Longrightarrow>
     written w' = written w @ take nn p \<and> nn \<le> length p \<and> (e = None \<longrightarrow> nn = length p)"
  by (auto simp: Write_def split: option.splits if_splits)

lemma Write_accepts:
  "accepts w m \<Longrightarrow> length p \<le> m \<Longrightarrow>
     \<exists>w'. Write p w = ((length p, None), w') \<and> accepts w' (m - length p)"
  by (auto simp: Write_def accepts_def split: option.splits)

lemma Discard_buffered:
  "k \<le> length (buffered r) \<Longrightarrow> Discard k r = ((k, None), r\<lparr>buffered := drop k (buffered r)\<rparr>)"
  by (simp add: Discard_def Peek.simps [of k r])

lemma copyBodyFixedSize_step:
  assumes "Peek 1 src = ((b1, e1), src1)"
  shows "copyBodyFixedSize src dst N sn =
     (if b1 = [] then (Return (Some EOF), src1, dst, sn)
      else
        let b = buffered src1; n = (if N \<le> int (length b) then N else int (length b))
        in if n < 0 then (Panic ''slice bounds out of range'', src1, dst, sn)
           else (case Write (take (nat n) b) dst of
                   ((nn, Some e), dst1) \<Rightarrow>
                     (Return (Some (Errorf ''fail to write request body : '' e)), src1, dst1, sn)
                 | ((nn, None), dst1) \<Rightarrow>
                     if int nn \<noteq> n then (Return (Some ErrShortWrite), src1, dst1, sn)
                     else if N - n = 0
                       then (Return None, src1\<lparr>buffered := drop nn b\<rparr>, dst1,
                             sn @ [Body (take (nat n) b)])
                       else copyBodyFixedSize (src1\<lparr>buffered := drop nn b\<rparr>) dst1 (N - n)
                              (sn @ [Body (take (nat n) b)])))"
proof (cases "b1 = []")
  case True
  with assms show ?thesis by (simp add: copyBodyFixedSize.simps [of src dst N sn])
next
  case False
  from Peek_props [OF assms] have b1: "b1 = take 1 (buffered src1)" by simp
  with False have ne: "buffered src1 \<noteq> []" by auto
  have disc: "\<And>nn n. int nn = n \<Longrightarrow> n \<le> int (length (buffered src1)) \<Longrightarrow>
      Discard nn src1 = ((nn, None), src1\<lparr>buffered := drop nn (buffered src1)\<rparr>)"
    by (rule Discard_buffered) simp
  show ?thesis
    using assms False ne
    by (auto simp: copyBodyFixedSize.simps [of src dst N sn] Peek_Buffered Let_def disc
        split: prod.splits option.splits)
qed

lemma copyBodyFixedSize_general:
  "0 < N \<Longrightarrow> copyBodyFixedSize src dst N sn = (out, src', dst', sn') \<Longrightarrow>
   \<exists>k w. avail src' = drop k (avail src) \<and> k \<le> length w \<and>
         w = take (length w) (avail src) \<and> length w \<le> length (avail src) \<and>
         int (length w) \<le> N \<and> written dst' = written dst @ w \<and>
         bodyBytes sn' = bodyBytes sn @ take k (avail src) \<and>
         (out = Return None \<longrightarrow> int k = N) \<and>
         (out = Return (Some EOF) \<longrightarrow> k = length (avail src) \<and> int k < N) \<and>
         (\<forall>s. out \<noteq> Panic s) \<and> out \<noteq> Return (Some ErrUnexpectedEOF) \<and>
         (\<exists>more. sn' = sn @ more)"
proof (induction "length (avail src)" arbitrary: src dst N sn rule: less_induct)
  case less
  obtain b1 e1 src1 where p: "Peek 1 src = ((b1, e1), src1)"
    by (metis prod.exhaust)
  from Peek_props [OF p] have av1: "avail src1 = avail src"
    and b1: "b1 = take 1 (buffered src1)"
    and e1: "e1 = None \<longrightarrow> 1 \<le> length (buffered src1)"
    and e1': "e1 \<noteq> None \<longrightarrow> feed src1 = []"
    by simp_all
  note st = copyBodyFixedSize_step [OF p, of dst N sn]
  show ?case
  proof (cases "b1 = []")
    case True
    with b1 have "buffered src1 = []" by (cases "buffered src1") simp_all
    with e1 e1' av1 have "avail src = []" by (auto simp: avail_def)
    moreover from st True less.prems(2) have "out = Return (Some EOF)" "src' = src1" "dst' = dst" "sn' = sn"
      by simp_all
    ultimately show ?thesis using av1 less.prems(1)
      by (intro exI [of _ 0] exI [of _ "[]"]) simp
  next
    case False
    define b where "b = buffered src1"
    define n where "n = (if N \<le> int (length b) then N else int (length b))"
    from False b1 have bne: "b \<noteq> []" by (auto simp: b_def)
    with less.prems(1) have npos: "0 < n" and nN: "n \<le> N" and nb: "nat n \<le> length b"
      by (auto simp: n_def)
    have avb: "avail src = b @ concat (feed src1)"
      using av1 by (simp add: avail_def b_def)
    obtain nn e dst1 where w: "Write (take (nat n) b) dst = ((nn, e), dst1)"
      by (metis prod.exhaust)
    from Write_props [OF w] nb have nnle: "nn \<le> nat n"
      and enone: "e = None \<longrightarrow> nn = nat n"
      and wr0: "written dst1 = written dst @ take nn (take (nat n) b)"
      by simp_all
    from wr0 nnle have wr: "written dst1 = written dst @ take nn b"
      by (simp add: min_absorb1)
    from nnle npos nN have nnN: "int nn \<le> N" by linarith
    from nnle nb have nnb: "nn \<le> length b" by linarith
    show ?thesis
    proof (cases e)
      case (Some x)
      with st False w less.prems(2) npos
      have "out = Return (Some (Errorf ''fail to write request body : '' x))"
        "src' = src1" "dst' = dst1" "sn' = sn"
        by (simp_all add: Let_def b_def [symmetric] n_def [symmetric])
      then show ?thesis using av1 wr nnN nnb avb
        by (intro exI [of _ 0] exI [of _ "take nn b"]) auto
    next
      case None
      with enone have nn: "nn = nat n" by simp
      define src3 where "src3 = src1\<lparr>buffered := drop nn b\<rparr>"
      have "avail src3 = drop nn b @ concat (feed src1)"
        by (simp add: src3_def avail_def)
      with nnb have av3: "avail src3 = drop nn (avail src)"
        by (simp add: avb)
      define sn1 where "sn1 = sn @ [Body (take (nat n) b)]"
      have bb: "bodyBytes sn1 = bodyBytes sn @ take nn b"
        by (simp add: sn1_def bodyBytes_append nn)
      have tk: "take nn b = take nn (avail src)" using nb nn by (simp add: avb)
      show ?thesis
      proof (cases "N - n = 0")
        case True
        with st False w None less.prems(2) npos nn
        have "out = Return None" "src' = src3" "dst' = dst1" "sn' = sn1"
          by (simp_all add: Let_def b_def [symmetric] n_def [symmetric] src3_def sn1_def)
        moreover have "\<exists>more. sn1 = sn @ more" by (simp add: sn1_def)
        ultimately show ?thesis using av3 wr bb tk nb nn True npos avb
          by (intro exI [of _ nn] exI [of _ "take nn b"]) auto
      next
        case F: False
        with st False w None less.prems(2) npos nn
        have rec: "copyBodyFixedSize src3 dst1 (N - n) sn1 = (out, src', dst', sn')"
          by (simp add: Let_def b_def [symmetric] n_def [symmetric] src3_def sn1_def)
        have lt: "length (avail src3) < length (avail src)"
          using av3 nb nn npos avb by simp
        have pos: "0 < N - n" using F nN by simp
        from less.hyps [OF lt pos rec] obtain k' w' where
          h: "avail src' = drop k' (avail src3)" "k' \<le> length w'"
             "w' = take (length w') (avail src3)" "length w' \<le> length (avail src3)"
             "int (length w') \<le> N - n" "written dst' = written dst1 @ w'"
             "bodyBytes sn' = bodyBytes sn1 @ take k' (avail src3)"
             "out = Return None \<longrightarrow> int k' = N - n"
             "out = Return (Some EOF) \<longrightarrow> k' = length (avail src3) \<and> int k' < N - n"
             "\<forall>s. out \<noteq> Panic s" "out \<noteq> Return (Some ErrUnexpectedEOF)"
             "\<exists>more. sn' = sn1 @ more"
          by blast
        have nnav: "nn \<le> length (avail src)" using nb nn avb by simp
        have len3: "length (avail src3) = length (avail src) - nn"
          using av3 by simp
        define k where "k = k' + nn"
        define w where "w = take nn (avail src) @ w'"
        have lw: "length w = nn + length w'"
          using nnav by (simp add: w_def)
        have c1: "avail src' = drop k (avail src)"
          using h(1) av3 by (simp add: k_def)
        have c2: "k \<le> length w"
          using h(2) lw by (simp add: k_def)
        have "w = take nn (avail src) @ take (length w') (drop nn (avail src))"
          unfolding w_def using h(3) av3 by metis
        also have "\<dots> = take (nn + length w') (avail src)"
          by (rule take_add [symmetric])
        finally have c3: "w = take (length w) (avail src)"
          unfolding lw .
        have c4: "length w \<le> length (avail src)"
          using h(4) len3 lw nnav by linarith
        have c5: "int (length w) \<le> N"
          using h(5) lw nn npos by simp
        have c6: "written dst' = written dst @ w"
          using h(6) wr tk by (simp add: w_def)
        have "take nn (avail src) @ take k' (drop nn (avail src)) = take (nn + k') (avail src)"
          by (rule take_add [symmetric])
        with h(7) bb tk av3 have c7: "bodyBytes sn' = bodyBytes sn @ take k (avail src)"
          by (simp add: k_def add.commute)
        have c8: "out = Return None \<longrightarrow> int k = N"
          using h(8) nn npos by (auto simp: k_def)
        have c9: "out = Return (Some EOF) \<longrightarrow> k = length (avail src) \<and> int k < N"
          using h(9) len3 nnav nn npos by (auto simp: k_def)
        have c10: "\<exists>more. sn' = sn @ more"
          using h(12) by (auto simp: sn1_def)
        from c1 c2 c3 c4 c5 c6 c7 c8 c9 h(10) h(11) c10
        show ?thesis by blast
      qed
    qed
  qed
qed

lemma copyBodyFixedSize_accepting:
  "0 < N \<Longrightarrow> accepts dst m \<Longrightarrow> min (nat N) (length (avail src)) \<le> m \<Longrightarrow>
   copyBodyFixedSize src dst N sn = (out, src', dst', sn') \<Longrightarrow>
   out = (if N \<le> int (length (avail src)) then Return None else Return (Some EOF)) \<and>
   accepts dst' (m - min (nat N) (length (avail src)))"
proof (induction "length (avail src)" arbitrary: src dst N sn m rule: less_induct)
  case less
  obtain b1 e1 src1 where p: "Peek 1 src = ((b1, e1), src1)"
    by (metis prod.exhaust)
  from Peek_props [OF p] have av1: "avail src1 = avail src"
    and b1: "b1 = take 1 (buffered src1)"
    and e1: "e1 = None \<longrightarrow> 1 \<le> length (buffered src1)"
    and e1': "e1 \<noteq> None \<longrightarrow> feed src1 = []"
    by simp_all
  note st = copyBodyFixedSize_step [OF p, of dst N sn]
  show ?case
  proof (cases "b1 = []")
    case True
    with b1 have "buffered src1 = []" by (cases "buffered src1") simp_all
    with e1 e1' av1 have "avail src = []" by (auto simp: avail_def)
    moreover from st True less.prems(4) have "out = Return (Some EOF)" "dst' = dst"
      by simp_all
    ultimately show ?thesis using less.prems(1,2) by simp
  next
    case False
    define b where "b = buffered src1"
    define n where "n = (if N \<le> int (length b) then N else int (length b))"
    from False b1 have bne: "b \<noteq> []" by (auto simp: b_def)
    with less.prems(1) have npos: "0 < n" and nN: "n \<le> N" and nb: "nat n \<le> length b"
      by (auto simp: n_def)
    have avb: "avail src = b @ concat (feed src1)"
      using av1 by (simp add: avail_def b_def)
    have "nat n \<le> min (nat N) (length (avail src))"
      using nN nb avb by simp
    with less.prems(3) have "nat n \<le> m" by linarith
    with nb have nm: "length (take (nat n) b) \<le> m" by simp
    from Write_accepts [OF less.prems(2) nm] nb obtain dst1 where
      w: "Write (take (nat n) b) dst = ((nat n, None), dst1)" and
      acc1: "accepts dst1 (m - nat n)"
      by (auto simp: min_absorb2)
    define src3 where "src3 = src1\<lparr>buffered := drop (nat n) b\<rparr>"
    have "avail src3 = drop (nat n) b @ concat (feed src1)"
      by (simp add: src3_def avail_def)
    with nb have av3: "avail src3 = drop (nat n) (avail src)"
      by (simp add: avb)
    show ?thesis
    proof (cases "N - n = 0")
      case True
      with st False w less.prems(4) npos
      have "out = Return None" "dst' = dst1"
        by (simp_all add: Let_def b_def [symmetric] n_def [symmetric])
      moreover from True have "n = N" by simp
      moreover from this nb avb have "N \<le> int (length (avail src))" by simp
      ultimately show ?thesis using acc1 by (simp add: min_absorb1)
    next
      case F: False
      with st False w less.prems(4) npos
      have rec: "copyBodyFixedSize src3 dst1 (N - n) (sn @ [Body (take (nat n) b)])
                   = (out, src', dst', sn')"
        by (simp add: Let_def b_def [symmetric] n_def [symmetric] src3_def)
      from F have nlen: "n = int (length b)" by (auto simp: n_def split: if_splits)
      have lt: "length (avail src3) < length (avail src)"
        using av3 nb npos avb by simp
      have pos: "0 < N - n" using F nN by simp
      have len3: "length (avail src3) = length (avail src) - nat n"
        using av3 by simp
      have mm: "min (nat (N - n)) (length (avail src3)) \<le> m - nat n"
        using less.prems(3) len3 npos nN by (simp add: min_def split: if_splits) linarith+
      from less.hyps [OF lt pos acc1 mm rec]
      have r: "out = (if N - n \<le> int (length (avail src3)) then Return None
                      else Return (Some EOF))"
        and a: "accepts dst' (m - nat n - min (nat (N - n)) (length (avail src3)))"
        by simp_all
      have c: "(N - n \<le> int (length (avail src3))) = (N \<le> int (length (avail src)))"
        using len3 nlen avb by auto
      have d: "m - nat n - min (nat (N - n)) (length (avail src3))
                 = m - min (nat N) (length (avail src))"
        using len3 nlen avb npos nN by (auto simp: min_def)
      from r a c d show ?thesis by simp
    qed
  qed
qed


lemma copyBodyFixedSize_if:
  assumes p: "Peek 1 src = ((b1, e1), src1)"
    and n: "n = (if N \<le> int (length (buffered src1)) then N else int (length (buffered src1)))"
    and w: "Write (take (nat n) (buffered src1)) dst = ((nn, e), dst1)"
  shows "copyBodyFixedSize src dst N sn =
     (if b1 = [] then (Return (Some EOF), src1, dst, sn)
      else if n < 0 then (Panic ''slice bounds out of range'', src1, dst, sn)
      else if e \<noteq> None
        then (Return (Some (Errorf ''fail to write request body : '' (the e))), src1, dst1, sn)
      else if int nn \<noteq> n then (Return (Some ErrShortWrite), src1, dst1, sn)
      else if N - n = 0
        then (Return None, src1\<lparr>buffered := drop nn (buffered src1)\<rparr>, dst1,
              sn @ [Body (take (nat n) (buffered src1))])
      else copyBodyFixedSize (src1\<lparr>buffered := drop nn (buffered src1)\<rparr>) dst1
             (N - n) (sn @ [Body (take (nat n) (buffered src1))]))"
proof (cases "b1 = []")
  case True
  then show ?thesis by (simp add: copyBodyFixedSize_step [OF p])
next
  case False
  note b = this
  show ?thesis
  proof (cases "n < 0")
    case True
    with b show ?thesis
      by (simp add: copyBodyFixedSize_step [OF p] Let_def n [symmetric])
  next
    case False
    with b w show ?thesis
      by (cases e) (simp_all add: copyBodyFixedSize_step [OF p] Let_def n [symmetric])
  qed
qed

lemma copyBodyFixedSize_code:
  "copyBodyFixedSize src dst N sn =
     (let src1 = snd (Peek 1 src);
          b = buffered src1;
          n = (if N \<le> int (length b) then N else int (length b));
          wr = Write (take (nat n) b) dst;
          nn = fst (fst wr);
          src3 = src1\<lparr>buffered := drop nn b\<rparr>;
          sn1 = sn @ [Body (take (nat n) b)]
      in if fst (fst (Peek 1 src)) = [] then (Return (Some EOF), src1, dst, sn)
         else if n < 0 then (Panic ''slice bounds out of range'', src1, dst, sn)
         else if snd (fst wr) \<noteq> None
           then (Return (Some (Errorf ''fail to write request body : '' (the (snd (fst wr))))),
                 src1, snd wr, sn)
         else if int nn \<noteq> n then (Return (Some ErrShortWrite), src1, snd wr, sn)
         else if N - n = 0 then (Return None, src3, snd wr, sn1)
         else copyBodyFixedSize src3 (snd wr) (N - n) sn1)"
  unfolding Let_def
  by (rule copyBodyFixedSize_if [where ?e1.0 = "snd (fst (Peek 1 src))"]) simp_all

lemma copyBodyFixedSize_nonpos:
  assumes N: "N \<le> 0" and c: "copyBodyFixedSize src dst N sn = (out, src', dst', sn')"
  shows "avail src' = avail src \<and> written dst' = written dst \<and>
         (N < 0 \<and> avail src \<noteq> [] \<longrightarrow> (\<exists>msg. out = Panic msg) \<and> sn' = sn)"
proof -
  obtain b1 e1 src1 where p: "Peek 1 src = ((b1, e1), src1)"
    by (metis prod.exhaust)
  from Peek_props [OF p] have av1: "avail src1 = avail src"
    and b1: "b1 = take 1 (buffered src1)"
    and e1: "e1 = None \<longrightarrow> 1 \<le> length (buffered src1)"
    and e1': "e1 \<noteq> None \<longrightarrow> feed src1 = []"
    by simp_all
  show ?thesis
  proof (cases "b1 = []")
    case True
    with b1 have "buffered src1 = []" by (cases "buffered src1") simp_all
    with e1 e1' av1 have "avail src = []" by (auto simp: avail_def)
    moreover from copyBodyFixedSize_step [OF p, of dst N sn] True c
    have "src' = src1" "dst' = dst" by simp_all
    ultimately show ?thesis using av1 by simp
  next
    case False
    with b1 have bne: "buffered src1 \<noteq> []" by auto
    with N have n: "N = (if N \<le> int (length (buffered src1)) then N
                         else int (length (buffered src1)))"
      by simp
    show ?thesis
    proof (cases "N < 0")
      case True
      from copyBodyFixedSize_step [OF p, of dst N sn] False True n c
      have "out = Panic ''slice bounds out of range''" "src' = src1" "dst' = dst" "sn' = sn"
        by (simp_all add: Let_def)
      with av1 show ?thesis by simp
    next
      case F: False
      with N have z: "N = 0" by simp
      obtain nn e dst1 where w: "Write [] dst = ((nn, e), dst1)"
        by (metis prod.exhaust)
      then have w': "nn = 0" "e = None" "written dst1 = written dst"
        by (auto simp: Write_def split: option.splits)
      from copyBodyFixedSize_if [OF p refl, of 0 dst nn e dst1 sn] w z False w' c
      have "src' = src1\<lparr>buffered := drop 0 (buffered src1)\<rparr>" "dst' = dst1"
        by simp_all
      with av1 w' z show ?thesis by (simp add: avail_def)
    qed
  qed
qed

lemma copyBodyFixedSize_avail_le:
  assumes c: "copyBodyFixedSize src dst N sn = (out, src', dst', sn')"
  shows "length (avail src') \<le> length (avail src)"
proof (cases "0 < N")
  case True
  from copyBodyFixedSize_general [OF True c] obtain k where "avail src' = drop k (avail src)"
    by blast
  then show ?thesis by simp
next
  case False
  then have "N \<le> 0" by simp
  from copyBodyFixedSize_nonpos [OF this c] show ?thesis by simp
qed

subsection \<open>Chunk sizes\<close>

text \<open>
  The value of a hexadecimal digit, 16 for any other byte.
\<close>

definition hexDigit :: "char \<Rightarrow> nat" where
  "hexDigit c =
     (let n = (of_char c :: nat)
      in if 48 \<le> n \<and> n \<le> 57 then n - 48
         else if 97 \<le> n \<and> n \<le> 102 then n - 87
         else if 65 \<le> n \<and> n \<le> 70 then n - 55
         else 16)"

definition isHex :: "char \<Rightarrow> bool" where
  "isHex c = (hexDigit c < 16)"


text \<open>
  Go's \<^verbatim>\<open>int\<close> is taken to be 64 bits wide, as on the platforms the proxy is built
  for. \<open>wrap64\<close> is the value that 64-bit two's complement arithmetic keeps of an
  integer; \<open>MaxInt64\<close> is \<^verbatim>\<open>math.MaxInt64\<close>. \<open>hexInt\<close> is the number that a string of hex
  digits gives when it is accumulated digit by digit in an \<^verbatim>\<open>int\<close>: it is the value of
  the digits when that is below \<open>2 ^ 63\<close>, and wraps around otherwise.
\<close>

definition wrap64 :: "int \<Rightarrow> int" where
  "wrap64 x = (x + 9223372036854775808) mod 18446744073709551616 - 9223372036854775808"

definition MaxInt64 :: int where
  "MaxInt64 = 9223372036854775807"

definition hexInt :: "bytes \<Rightarrow> int" where
  "hexInt ds = foldl (\<lambda>n c. wrap64 (n * 16 + int (hexDigit c))) 0 ds"

text \<open>
  Modelled from the spec: \<^verbatim>\<open>readHexInt\<close> is called by \<^verbatim>\<open>parseChunkSize\<close> and is not
  among the source files. The spec has "Chunk-size parsing reads hex digits (optionally
  followed by a ;-delimited extension that is currently ignored but forwarded
  verbatim), then a mandatory CRLF. Invalid hex or missing CRLF: BadChunk". The CRLF is
  read by \<^verbatim>\<open>parseChunkSize\<close>, so \<^verbatim>\<open>readHexInt\<close> reads the hex digits, and the extension
  when a semicolon follows them, up to the carriage return; it appends what it read to
  the buffer and returns the value of the digits. Its result is a Go \<^verbatim>\<open>int\<close>, as the
  signature of \<^verbatim>\<open>parseChunkSize\<close> shows: the digits are accumulated in that type
  (\<open>hexInt\<close>), the spec giving no limit on their number. With no hex digit to read it
  fails with \<open>ErrEmptyHexNum\<close> and reads nothing.
\<close>

definition ErrEmptyHexNum :: error where
  "ErrEmptyHexNum = New ''empty hex number''"

definition readHexInt :: "Reader \<Rightarrow> bytes \<Rightarrow> (error + int) \<times> Reader \<times> bytes" where
  "readHexInt r buffer =
     (let digits = takeWhile isHex (avail r);
          after = dropWhile isHex (avail r);
          ext = (case after of
                   [] \<Rightarrow> []
                 | c # cs \<Rightarrow> if c = CHR '';'' then takeWhile (\<lambda>x. x \<noteq> CR) after else [])
      in if digits = [] then (Inl ErrEmptyHexNum, r, buffer)
         else (Inr (hexInt digits), snd (Discard (length (digits @ ext)) r),
               buffer @ digits @ ext))"

text \<open>
  \<^verbatim>\<open>parseChunkSize\<close>: the result is the chunk size with the error, the reader and the
  buffer. A \<^verbatim>\<open>ByteBuffer\<close> grows as needed, so writing to it does not fail.
\<close>

definition parseChunkSize :: "Reader \<Rightarrow> bytes \<Rightarrow> (int \<times> error option) \<times> Reader \<times> bytes" where
  "parseChunkSize r buffer =
     (case readHexInt r buffer of
        (Inl err, r1, buf1) \<Rightarrow> ((- 1, Some err), r1, buf1)
      | (Inr n, r1, buf1) \<Rightarrow>
          (case ReadByte r1 of
             (Inl err, r2) \<Rightarrow>
               ((- 1, Some (Errorf (''cannot read '' @ [CHR 0x27, CR, CHR 0x27] @
                                    '' char at the end of chunk size: '') err)), r2, buf1)
           | (Inr c, r2) \<Rightarrow>
               if c \<noteq> CR then ((- 1, Some (ErrUnexpectedChar c CR)), r2, buf1)
               else (case ReadByte r2 of
                       (Inl err, r3) \<Rightarrow>
                         ((- 1, Some (Errorf (''cannot read '' @ [CHR 0x27, LF, CHR 0x27] @
                                              '' char at the end of chunk size: '') err)),
                          r3, buf1)
                     | (Inr c', r3) \<Rightarrow>
                         if c' \<noteq> LF then ((- 1, Some (ErrUnexpectedChar c' LF)), r3, buf1)
                         else ((n, None), r3, buf1 @ [CR, LF]))))"


lemma ReadByte_Inr: "ReadByte r = (Inr c, r') \<Longrightarrow> avail r = c # avail r'"
proof -
  assume a: "ReadByte r = (Inr c, r')"
  obtain b e r1 where p: "Peek 1 r = ((b, e), r1)"
    by (metis prod.exhaust)
  from Peek_props [OF p] have av: "avail r1 = avail r" and b: "b = take 1 (buffered r1)"
    by simp_all
  from a p obtain bs where bb: "b = c # bs" and r': "r' = r1\<lparr>buffered := tl (buffered r1)\<rparr>"
    by (auto simp: ReadByte_def split: list.splits)
  from bb b obtain rest where "buffered r1 = c # rest"
    by (cases "buffered r1") auto
  with r' av show ?thesis by (simp add: avail_def)
qed

lemma ReadByte_Inl: "ReadByte r = (Inl e, r') \<Longrightarrow> avail r = [] \<and> avail r' = []"
proof -
  assume a: "ReadByte r = (Inl e, r')"
  obtain b e1 r1 where p: "Peek 1 r = ((b, e1), r1)"
    by (metis prod.exhaust)
  from Peek_props [OF p] have av: "avail r1 = avail r" and b: "b = take 1 (buffered r1)"
    and e1: "e1 = None \<longrightarrow> 1 \<le> length (buffered r1)"
    and e1': "e1 \<noteq> None \<longrightarrow> feed r1 = []"
    by simp_all
  from a p have bn: "b = []" and r': "r' = r1"
    by (auto simp: ReadByte_def split: list.splits)
  from bn b have "buffered r1 = []" by (cases "buffered r1") simp_all
  with e1 e1' have "avail r1 = []" by (auto simp: avail_def)
  with av r' show ?thesis by simp
qed


lemma ReadByte_Nil: "avail r = [] \<Longrightarrow> \<exists>e r'. ReadByte r = (Inl e, r') \<and> avail r' = []"
proof -
  assume a: "avail r = []"
  obtain x r' where rb: "ReadByte r = (x, r')" by (metis prod.exhaust)
  show ?thesis
  proof (cases x)
    case (Inl e)
    with rb ReadByte_Inl [of r e r'] show ?thesis by simp
  next
    case (Inr d)
    with rb ReadByte_Inr [of r d r'] a show ?thesis by simp
  qed
qed

lemma Discard_enough:
  "n \<le> length (avail r) \<Longrightarrow> avail (snd (Discard n r)) = drop n (avail r)"
proof -
  assume n: "n \<le> length (avail r)"
  obtain k e r' where d: "Discard n r = ((k, e), r')" by (metis prod.exhaust)
  obtain b e0 r0 where p: "Peek n r = ((b, e0), r0)" by (metis prod.exhaust)
  from d p have ee: "e = e0" by (auto simp: Discard_def)
  from Peek_props [OF p] have "avail r0 = avail r"
    and "e0 \<noteq> None \<longrightarrow> feed r0 = [] \<and> length (buffered r0) < n"
    by simp_all
  with n have "e0 = None" by (auto simp: avail_def)
  with ee Discard_avail [OF d] d show ?thesis by simp
qed

lemma not_isHex_CR [simp]: "\<not> isHex CR"
  by (simp add: isHex_def hexDigit_def)

lemma not_isHex_semicolon [simp]: "\<not> isHex (CHR '';'')"
  by (simp add: isHex_def hexDigit_def)



lemma readHexInt_Inr:
  assumes a: "readHexInt r buffer = (Inr n, r', buf)"
  shows "\<exists>digits ext. digits \<noteq> [] \<and> (\<forall>c\<in>set digits. isHex c) \<and>
           (ext = [] \<or> (hd ext = CHR '';'' \<and> CR \<notin> set ext)) \<and>
           n = hexInt digits \<and> buf = buffer @ digits @ ext \<and>
           avail r = digits @ ext @ avail r'"
proof -
  define digits where "digits = takeWhile isHex (avail r)"
  define after where "after = dropWhile isHex (avail r)"
  define ext where "ext = (case after of
                   [] \<Rightarrow> []
                 | c # cs \<Rightarrow> if c = CHR '';'' then takeWhile (\<lambda>x. x \<noteq> CR) after else [])"
  have rh: "readHexInt r buffer =
      (if digits = [] then (Inl ErrEmptyHexNum, r, buffer)
       else (Inr (hexInt digits), snd (Discard (length (digits @ ext)) r),
             buffer @ digits @ ext))"
    unfolding readHexInt_def Let_def digits_def ext_def after_def by (rule refl)
  from a have ne: "digits \<noteq> []" and r': "r' = snd (Discard (length (digits @ ext)) r)"
    and buf: "buf = buffer @ digits @ ext" and n: "n = hexInt digits"
    unfolding rh by (simp_all split: if_splits)
  have e: "ext = [] \<or> (ext = takeWhile (\<lambda>x. x \<noteq> CR) after \<and> hd after = CHR '';'' \<and> after \<noteq> [])"
    unfolding ext_def by (cases after) auto
  then have "\<exists>t. after = ext @ t"
    by (metis append_Nil takeWhile_dropWhile_id)
  then obtain t where t: "after = ext @ t" by blast
  have ex: "ext = [] \<or> (hd ext = CHR '';'' \<and> CR \<notin> set ext)"
  proof (cases "ext = []")
    case True
    then show ?thesis by simp
  next
    case False
    with e have tw: "ext = takeWhile (\<lambda>x. x \<noteq> CR) after" and h: "hd after = CHR '';''"
      and an: "after \<noteq> []"
      by simp_all
    from an h obtain cs where "after = CHR '';'' # cs" by (cases after) auto
    with tw have "hd ext = CHR '';''" by simp
    moreover from tw have "CR \<notin> set ext" by (metis set_takeWhileD)
    ultimately show ?thesis by simp
  qed
  have hx: "\<forall>c\<in>set digits. isHex c"
    unfolding digits_def by (metis set_takeWhileD)
  have "avail r = digits @ after"
    by (simp add: digits_def after_def)
  with t have av: "avail r = (digits @ ext) @ t" by simp
  then have "length (digits @ ext) \<le> length (avail r)" by (metis le_add1 length_append)
  from Discard_enough [OF this] r' av have "avail r' = t" by simp
  with av ne buf n ex hx show ?thesis by auto
qed


lemma parseChunkSize_success:
  assumes a: "parseChunkSize r buffer = ((n, None), r', buf)"
  shows "\<exists>digits ext. digits \<noteq> [] \<and> (\<forall>c\<in>set digits. isHex c) \<and>
           (ext = [] \<or> (hd ext = CHR '';'' \<and> CR \<notin> set ext)) \<and>
           n = hexInt digits \<and> buf = buffer @ digits @ ext @ [CR, LF] \<and>
           avail r = digits @ ext @ CR # LF # avail r'"
proof -
  obtain x r1 buf1 where rh: "readHexInt r buffer = (x, r1, buf1)"
    by (metis prod.exhaust)
  obtain y r2 where b1: "ReadByte r1 = (y, r2)" by (metis prod.exhaust)
  obtain z r3 where b2: "ReadByte r2 = (z, r3)" by (metis prod.exhaust)
  from a rh b1 b2 obtain m where x: "x = Inr m" and y: "y = Inr CR" and z: "z = Inr LF"
    and n: "n = m" and r': "r' = r3" and buf: "buf = buf1 @ [CR, LF]"
    by (auto simp: parseChunkSize_def split: sum.splits if_splits)
  from readHexInt_Inr [OF rh [unfolded x]] obtain digits ext where
    d: "digits \<noteq> []" "\<forall>c\<in>set digits. isHex c"
       "ext = [] \<or> (hd ext = CHR '';'' \<and> CR \<notin> set ext)"
       "m = hexInt digits" "buf1 = buffer @ digits @ ext"
       "avail r = digits @ ext @ avail r1"
    by blast
  from ReadByte_Inr [OF b1 [unfolded y]] have a1: "avail r1 = CR # avail r2" .
  from ReadByte_Inr [OF b2 [unfolded z]] have a2: "avail r2 = LF # avail r3" .
  from d a1 a2 n r' buf show ?thesis
    by (intro exI [of _ digits] exI [of _ ext]) simp
qed






subsection \<open>copyBodyChunked, copyBodyIdentity and copyBody\<close>

text \<open>
  The loop of \<^verbatim>\<open>copyBodyChunked\<close>, one call per chunk. \<^verbatim>\<open>buffer.Reset()\<close> empties the
  buffer before the chunk size is parsed into it. The sniffer sees the size line once it
  has been written. The budget \<^verbatim>\<open>int64(chunkSize+strCRLFLen)\<close> is a sum of two Go
  \<^verbatim>\<open>int\<close>s, so it wraps around when the chunk size is within 2 of the largest
  \<^verbatim>\<open>int\<close>.
\<close>

function copyBodyChunked ::
  "Reader \<Rightarrow> Writer \<Rightarrow> bytes \<Rightarrow> Sniffer \<Rightarrow> outcome \<times> Reader \<times> Writer \<times> Sniffer" where
  "copyBodyChunked src dst buffer sn =
     (case parseChunkSize src [] of
        ((chunkSize, Some err), src1, buf1) \<Rightarrow> (Return (Some err), src1, dst, sn)
      | ((chunkSize, None), src1, buf1) \<Rightarrow>
          (case Write buf1 dst of
             ((_, Some err), dst1) \<Rightarrow> (Return (Some err), src1, dst1, sn)
           | ((_, None), dst1) \<Rightarrow>
               (case copyBodyFixedSize src1 dst1 (wrap64 (chunkSize + int (length strCRLF)))
                       (sn @ [Body buf1]) of
                  (out, src2, dst2, sn2) \<Rightarrow>
                    if out \<noteq> Return None then (out, src2, dst2, sn2)
                    else if chunkSize = 0 then (Return None, src2, dst2, sn2)
                    else copyBodyChunked src2 dst2 buf1 sn2)))"
  by pat_completeness auto
termination
proof (relation "measure (\<lambda>(src, dst, buffer, sn). length (avail src))", goal_cases)
  case 1
  show ?case by simp
next
  case prems: (2 src dst buffer sn x y chunkSize e src1 buf1 w dst1 nn we out rest src2 r2 dst2 sn2)
  from prems(1,2,3,4) have "parseChunkSize src [] = ((chunkSize, None), src1, buf1)"
    by simp
  from parseChunkSize_success [OF this]
  have lt: "length (avail src1) < length (avail src)"
    by auto
  from prems(8,9,10) have
    "copyBodyFixedSize src1 dst1 (wrap64 (chunkSize + int (length strCRLF))) (sn @ [Body buf1])
       = (out, src2, dst2, sn2)"
    by simp
  from copyBodyFixedSize_avail_le [OF this] lt show ?case by simp
qed

definition copyBodyIdentity ::
  "Reader \<Rightarrow> Writer \<Rightarrow> Sniffer \<Rightarrow> outcome \<times> Reader \<times> Writer \<times> Sniffer" where
  "copyBodyIdentity src dst sn =
     (case copyBodyFixedSize src dst MaxInt64 sn of
        (out, src1, dst1, sn1) \<Rightarrow>
          (case out of
             Return (Some err) \<Rightarrow>
               if err = EOF then (Return None, src1, dst1, sn1)
               else (Return (Some err), src1, dst1, sn1)
           | Return None \<Rightarrow> (Return None, src1, dst1, sn1)
           | Panic msg \<Rightarrow> (Panic msg, src1, dst1, sn1)))"

text \<open>
  \<^verbatim>\<open>copyBody\<close>. The byte buffer for the chunked copier comes from a pool; the copier
  resets it before use.
\<close>

definition copyBody ::
  "Reader \<Rightarrow> Writer \<Rightarrow> Header \<Rightarrow> Sniffer \<Rightarrow> outcome \<times> Reader \<times> Writer \<times> Sniffer" where
  "copyBody src dst hdr sn =
     (if ContentLength hdr > 0 then copyBodyFixedSize src dst (ContentLength hdr) sn
      else if IsBodyChunked hdr then copyBodyChunked src dst [] sn
      else if IsBodyIdentity hdr then copyBodyIdentity src dst sn
      else (Return None, src, dst, sn))"


declare copyBodyChunked.simps [simp del]







subsection \<open>Equations for running the copiers on given input\<close>



section \<open>Connections, the tunnel and the MITM handler\<close>

text \<open>
  A \<^verbatim>\<open>net.Conn\<close>: the chunks the peer will send, in order, the error that reading
  gives after them (\<open>EOF\<close> when the peer closes), the writer towards the peer, and
  whether the connection has been closed on this side.
\<close>

record Conn =
  incoming :: "bytes list"
  incomingErr :: error
  outgoing :: Writer
  closed :: bool

text \<open>\<^verbatim>\<open>BufioPool.AcquireReader(c)\<close> and \<^verbatim>\<open>BufioPool.AcquireWriter(c)\<close>.\<close>

definition AcquireReader :: "Conn \<Rightarrow> Reader" where
  "AcquireReader c = \<lparr>buffered = [], feed = incoming c, rerr = incomingErr c\<rparr>"

definition AcquireWriter :: "Conn \<Rightarrow> Writer" where
  "AcquireWriter c = outgoing c"

text \<open>
  Modelled from the spec: \<^verbatim>\<open>util.WriteWithValidation\<close> is not among the source files.
  It writes the bytes to the connection and reports a failed or a short write; the spec
  has the two status lines it is used for written to the client as they are.
\<close>

definition WriteWithValidation :: "Conn \<Rightarrow> bytes \<Rightarrow> error option \<times> Conn" where
  "WriteWithValidation c b =
     (case Write b (outgoing c) of
        ((n, Some e), w) \<Rightarrow> (Some e, c\<lparr>outgoing := w\<rparr>)
      | ((n, None), w) \<Rightarrow>
          (if n \<noteq> length b then Some ErrShortWrite else None, c\<lparr>outgoing := w\<rparr>))"

definition sendHTTPSProxyStatusOK :: "Conn \<Rightarrow> error option \<times> Conn" where
  "sendHTTPSProxyStatusOK c = WriteWithValidation c (''HTTP/1.1 200 OK'' @ [CR, LF, CR, LF])"

definition sendHTTPSProxyStatusBadGateway :: "Conn \<Rightarrow> error option \<times> Conn" where
  "sendHTTPSProxyStatusBadGateway c =
     WriteWithValidation c (''HTTP/1.1 501 Bad Gateway'' @ [CR, LF, CR, LF])"

subsection \<open>The opaque tunnel\<close>

text \<open>
  Modelled from the spec: \<^verbatim>\<open>transport.Forward(dst, src)\<close> is not among the source
  files. It copies what \<open>src\<close> sends to \<open>dst\<close>, in order, until \<open>src\<close> ends or a read or
  a write fails. \<open>forwardStep\<close> is one round of it: the first component is \<open>None\<close> while
  it goes on, and \<open>Some r\<close> when it returns \<open>r\<close>.
\<close>

definition forwardStep :: "Conn \<Rightarrow> Conn \<Rightarrow> error option option \<times> Conn \<times> Conn" where
  "forwardStep dst src =
     (case incoming src of
        [] \<Rightarrow> (Some (if incomingErr src = EOF then None else Some (incomingErr src)), dst, src)
      | ch # rest \<Rightarrow>
          (case Write ch (outgoing dst) of
             ((_, Some e), w) \<Rightarrow> (Some (Some e), dst\<lparr>outgoing := w\<rparr>, src\<lparr>incoming := rest\<rparr>)
           | ((_, None), w) \<Rightarrow> (None, dst\<lparr>outgoing := w\<rparr>, src\<lparr>incoming := rest\<rparr>)))"

text \<open>
  \<^verbatim>\<open>tunnelConnect\<close> starts two goroutines and waits for both with a
  \<^verbatim>\<open>sync.WaitGroup\<close>. The state of the three threads: the two connections, the
  variables \<^verbatim>\<open>err1\<close> and \<^verbatim>\<open>err2\<close> (\<open>None\<close> while the goroutine that assigns it is still
  copying), the counter of the wait group, and the value \<^verbatim>\<open>tunnelConnect\<close> has returned
  (\<open>None\<close> while it waits). A schedule says which thread moves next; a thread that cannot
  move (a goroutine that has finished, the waiter while the counter is not zero) stays
  where it is.
\<close>

datatype thread = ClientToTarget | TargetToClient | Waiter

record Tunnel =
  client :: Conn
  target :: Conn
  err1 :: "error option option"
  err2 :: "error option option"
  wg :: nat
  returned :: "error option option"

fun step :: "thread \<Rightarrow> Tunnel \<Rightarrow> Tunnel" where
  "step ClientToTarget t =
     (if err1 t \<noteq> None then t
      else (case forwardStep (target t) (client t) of
              (None, d, s) \<Rightarrow> t\<lparr>target := d, client := s\<rparr>
            | (Some r, d, s) \<Rightarrow> t\<lparr>target := d, client := s, err1 := Some r, wg := wg t - 1\<rparr>))"
| "step TargetToClient t =
     (if err2 t \<noteq> None then t
      else (case forwardStep (client t) (target t) of
              (None, d, s) \<Rightarrow> t\<lparr>client := d, target := s\<rparr>
            | (Some r, d, s) \<Rightarrow> t\<lparr>client := d, target := s, err2 := Some r, wg := wg t - 1\<rparr>))"
| "step Waiter t =
     (if returned t \<noteq> None \<or> wg t \<noteq> 0 then t
      else t\<lparr>returned :=
             Some (case err1 t of
                     Some (Some e) \<Rightarrow>
                       Some (Errorf ''error occurred when tunneling client request to client: '' e)
                   | _ \<Rightarrow>
                       (case err2 t of
                          Some (Some e) \<Rightarrow>
                            Some (Errorf
                              ''error occurred when tunneling client response to client: '' e)
                        | _ \<Rightarrow> None))\<rparr>)"

fun runTunnel :: "thread list \<Rightarrow> Tunnel \<Rightarrow> Tunnel" where
  "runTunnel [] t = t"
| "runTunnel (th # ths) t = runTunnel ths (step th t)"

text \<open>
  What the code under verification takes from outside: the parser of the request line,
  the server's date string, the decrypt policy, \<^verbatim>\<open>transport.Dial\<close>, the schedule of the
  tunnel's threads, \<^verbatim>\<open>net.SplitHostPort\<close>, \<^verbatim>\<open>cert.GenCert\<close>, the client's side of the TLS
  handshake (the server name of its ClientHello, empty when it sends none, the error of
  the handshake, and the decrypted connection), and \<^verbatim>\<open>client.Do\<close>.
\<close>

record Certificate =
  names :: "string list"

record TLSAccept =
  helloServerName :: string
  handshakeErr :: "error option"
  plain :: Conn

record Env =
  Parse :: reqline_parser
  ServerDate :: string
  ShouldDecryptHost :: "string \<Rightarrow> bool"
  Dial :: "string \<Rightarrow> error + Conn"
  schedule :: "thread list"
  SplitHostPort :: "string \<Rightarrow> error + string"
  GenCert :: "string list \<Rightarrow> error + Certificate"
  Handshake :: "Conn \<Rightarrow> TLSAccept"
  clientDo :: "Request \<Rightarrow> Response \<Rightarrow> error option \<times> Request \<times> Response"

text \<open>
  The state shared by the connections: the two pools, and the requests that were handed
  to \<^verbatim>\<open>client.Do\<close>, that is forwarded upstream, in order.
\<close>

record World =
  requestPool :: "Request list"
  responsePool :: "Response list"
  forwarded :: "Request list"

text \<open>
  \<^verbatim>\<open>tunnelConnect\<close>: the result is what it returned (\<open>None\<close>: under this schedule it is
  still waiting for the goroutines), the client connection, and the connection to the
  target when the dial succeeded. The deferred \<^verbatim>\<open>tunnelConn.Close()\<close> runs when it
  returns.
\<close>

definition tunnelConnect ::
  "Env \<Rightarrow> Conn \<Rightarrow> string \<Rightarrow> error option option \<times> Conn \<times> Conn option" where
  "tunnelConnect env conn host =
     (case Dial env host of
        Inl err \<Rightarrow>
          (Some (Some (Errorf (''error occurred when dialing to host'' @ host @ '': '') err)),
           snd (sendHTTPSProxyStatusBadGateway conn), None)
      | Inr tunnelConn \<Rightarrow>
          (case sendHTTPSProxyStatusOK conn of
             (Some err, c1) \<Rightarrow>
               (Some (Some (Errorf ''error occurred when handshaking with client: '' err)),
                c1, Some (tunnelConn\<lparr>closed := True\<rparr>))
           | (None, c1) \<Rightarrow>
               (let t = runTunnel (schedule env)
                          \<lparr>client = c1, target = tunnelConn, err1 = None, err2 = None,
                           wg = 2, returned = None\<rparr>
                in (case returned t of
                      None \<Rightarrow> (None, client t, Some (target t))
                    | Some r \<Rightarrow> (Some r, client t, Some ((target t)\<lparr>closed := True\<rparr>))))))"

subsection \<open>The MITM handler\<close>

definition ResponseLine_Reset :: "ResponseLine \<Rightarrow> ResponseLine" where
  "ResponseLine_Reset rl = \<lparr>respProtocol = [], statusCode = 0, reason = []\<rparr>"

definition Response_Reset :: "Response \<Rightarrow> Response" where
  "Response_Reset r =
     r\<lparr>writer := None, respLine := ResponseLine_Reset (respLine r),
       respHeader := Header_Reset (respHeader r)\<rparr>"

definition AcquireResponse :: "Response list \<Rightarrow> Response \<times> Response list" where
  "AcquireResponse pool = (case pool of [] \<Rightarrow> (emptyResponse, []) | v # vs \<Rightarrow> (v, vs))"

definition ReleaseResponse :: "Response \<Rightarrow> Response list \<Rightarrow> Response list" where
  "ReleaseResponse resp pool = Response_Reset resp # pool"

definition signFakeCert :: "Env \<Rightarrow> string \<Rightarrow> error + Certificate" where
  "signFakeCert env host =
     (case SplitHostPort env host of
        Inl err \<Rightarrow> Inl (Errorf (''get host's '' @ host @ '' domain with error '') err)
      | Inr domain \<Rightarrow>
          (case GenCert env [domain] of
             Inl e2 \<Rightarrow> Inl (Errorf (''sign '' @ domain @ '' fake cert with error '') e2)
           | Inr cert \<Rightarrow> Inr cert))"

text \<open>
  The closure \<^verbatim>\<open>handShake\<close> of \<^verbatim>\<open>decryptConnect\<close>, with the variable
  \<^verbatim>\<open>targetServerName\<close> that the certificate callback assigns: the result is that
  variable, the TLS connection with the error, and the client connection. The callback
  stores the server name of the ClientHello; the variable keeps its initial empty
  string when the client sends none.
\<close>

definition handShake :: "Env \<Rightarrow> Conn \<Rightarrow> string \<times> (error + Conn) \<times> Conn" where
  "handShake env c =
     (case sendHTTPSProxyStatusOK c of
        (Some err, c1) \<Rightarrow> ([], Inl (Errorf ''proxy handshaking error: '' err), c1)
      | (None, c1) \<Rightarrow>
          (let hello = Handshake env c1
           in (case handshakeErr hello of
                 Some err \<Rightarrow>
                   (helloServerName hello,
                    Inl (Errorf ''fake server tls handshaking error: '' err),
                    c1\<lparr>closed := True\<rparr>)
               | None \<Rightarrow> (helloServerName hello, Inr (plain hello), c1))))"

text \<open>
  \<^verbatim>\<open>decryptConnect\<close>: the result is the error, the client connection, the decrypted
  connection when the exchange got that far, and the shared state. The source file of
  the handler calls \<^verbatim>\<open>InitWithTLSClientReader(reader, sniffer, targetServerName)\<close> and
  then \<^verbatim>\<open>SetHostWithPort(hostWithPort)\<close>; the request of http.go takes the host as an
  argument of the initialisation, which is how it is passed here. The deferred releases
  and the deferred \<^verbatim>\<open>fakeServerConn.Close()\<close> run on every return after their
  registration. \<open>decryptExchange\<close> is the part of the function after the handshake:
  it binds a request to the decrypted stream and hands it to \<^verbatim>\<open>client.Do\<close>.
\<close>

definition decryptExchange ::
  "Env \<Rightarrow> Conn \<Rightarrow> Conn \<Rightarrow> string \<Rightarrow> string \<Rightarrow> Sniffer \<Rightarrow> World
     \<Rightarrow> error option \<times> Conn \<times> Conn option \<times> World" where
  "decryptExchange env c1 fakeServerConn hostPort targetServerName sn w =
     (case AcquireRequest (requestPool w) of
        (req, rpool) \<Rightarrow>
          (case InitWithTLSClientReader (Parse env) req (Some (AcquireReader fakeServerConn))
                  sn hostPort targetServerName of
             (Some e, req1, _) \<Rightarrow>
               (Some (Errorf ''fail to read MITMed https request header: '' e),
                c1, Some (fakeServerConn\<lparr>closed := True\<rparr>),
                w\<lparr>requestPool := ReleaseRequest req1 rpool\<rparr>)
           | (None, req1, _) \<Rightarrow>
               (case AcquireResponse (responsePool w) of
                  (resp, spool) \<Rightarrow>
                    (case InitWithWriter resp (Some (AcquireWriter fakeServerConn)) sn of
                       (Some e, resp1) \<Rightarrow>
                         (Some (Errorf ''fail to init MITMed https response header: '' e),
                          c1, Some (fakeServerConn\<lparr>closed := True\<rparr>),
                          w\<lparr>requestPool := ReleaseRequest req1 rpool,
                            responsePool := ReleaseResponse resp1 spool\<rparr>)
                     | (None, resp1) \<Rightarrow>
                         (case clientDo env req1 resp1 of
                            (e, req2, resp2) \<Rightarrow>
                              ((case e of
                                  Some x \<Rightarrow>
                                    Some (Errorf ''fail to make MITMed https client request : '' x)
                                | None \<Rightarrow> None),
                               c1,
                               Some (fakeServerConn
                                 \<lparr>outgoing := (case writer resp2 of
                                                 Some wr \<Rightarrow> wr
                                               | None \<Rightarrow> outgoing fakeServerConn),
                                  closed := True\<rparr>),
                               w\<lparr>requestPool := ReleaseRequest req2 rpool,
                                 responsePool := ReleaseResponse resp2 spool,
                                 forwarded := forwarded w @ [req1]\<rparr>))))))"

definition decryptConnect ::
  "Env \<Rightarrow> Conn \<Rightarrow> string \<Rightarrow> Sniffer \<Rightarrow> World
     \<Rightarrow> error option \<times> Conn \<times> Conn option \<times> World" where
  "decryptConnect env c hostPort sn w =
     (case signFakeCert env hostPort of
        Inl err \<Rightarrow>
          (Some (Errorf ''error occurred when signing fake certificate for client: '' err),
           snd (sendHTTPSProxyStatusBadGateway c), None, w)
      | Inr fakeTargetServerCert \<Rightarrow>
          (case handShake env c of
             (targetServerName, hs, c1) \<Rightarrow>
               (let err = (if length targetServerName = 0
                           then Some (New (''client didn'' @ [CHR 0x27] @
                                           ''t provide a target server name''))
                           else (case hs of Inl e \<Rightarrow> Some e | Inr _ \<Rightarrow> None))
                in (case err of
                      Some e \<Rightarrow>
                        (Some (Errorf ''error occurred when handshaking with client: '' e),
                         c1, None, w)
                    | None \<Rightarrow>
                        (case hs of
                           Inl e \<Rightarrow>
                             (Some (Errorf ''error occurred when handshaking with client: '' e),
                              c1, None, w)
                         | Inr fakeServerConn \<Rightarrow>
                             decryptExchange env c1 fakeServerConn hostPort targetServerName
                               sn w)))))"

section \<open>The proxy server\<close>

subsection \<open>Fast error responses\<close>

text \<open>The decimal digits of a number, as \<^verbatim>\<open>%d\<close> prints it.\<close>

function decimal :: "nat \<Rightarrow> string" where
  "decimal n =
     (if n < 10 then [''0123456789'' ! n]
      else decimal (n div 10) @ [''0123456789'' ! (n mod 10)])"
  by pat_completeness auto
termination
  by (relation "measure (\<lambda>n. n)") auto

declare decimal.simps [simp del]

text \<open>
  Modelled from the spec: the status codes and \<^verbatim>\<open>header.StatusLine\<close> are not among the
  source files. The spec has the status lines \<^verbatim>\<open>HTTP/1.1 400 Bad Request\<close> and
  \<^verbatim>\<open>HTTP/1.1 503 Service Unavailable\<close>, each ended by CR LF.
\<close>

definition StatusBadRequest :: nat where
  "StatusBadRequest = 400"

definition StatusServiceUnavailable :: nat where
  "StatusServiceUnavailable = 503"

definition StatusMessage :: "nat \<Rightarrow> string" where
  "StatusMessage code =
     (if code = 400 then ''Bad Request''
      else if code = 503 then ''Service Unavailable''
      else ''Unknown Status Code'')"

definition StatusLine :: "nat \<Rightarrow> bytes" where
  "StatusLine code = ''HTTP/1.1 '' @ decimal code @ '' '' @ StatusMessage code @ [CR, LF]"

text \<open>
  \<^verbatim>\<open>writeFastError\<close>: two writes, the status line and then the rest as
  \<^verbatim>\<open>fmt.Fprintf\<close> formats it. The date is what \<^verbatim>\<open>servertime.ServerDate()\<close> returns.
\<close>

definition writeFastError :: "string \<Rightarrow> Writer \<Rightarrow> nat \<Rightarrow> string \<Rightarrow> error option \<times> Writer" where
  "writeFastError date w code msg =
     (case Write (StatusLine code) w of
        ((_, Some err), w1) \<Rightarrow> (Some err, w1)
      | ((_, None), w1) \<Rightarrow>
          (case Write (''Connection: close'' @ [CR, LF] @
                       ''Date: '' @ date @ [CR, LF] @
                       ''Content-Type: text/plain'' @ [CR, LF] @
                       ''Content-Length: '' @ decimal (length msg) @ [CR, LF] @
                       [CR, LF] @
                       msg) w1 of
             ((_, err), w2) \<Rightarrow> (err, w2)))"

subsection \<open>Serving one connection\<close>

text \<open>
  \<^verbatim>\<open>handleHTTPConns\<close>. The handler's first statement, \<^verbatim>\<open>req.SetProxy\<close>, sets a field
  that the request of http.go does not have; it has no counterpart here. The request
  and the response come back from \<^verbatim>\<open>client.Do\<close> as it leaves them; what the response
  wrote is on the client connection after the deferred flush.
\<close>

definition handleHTTPConns ::
  "Env \<Rightarrow> Conn \<Rightarrow> Request \<Rightarrow> Sniffer \<Rightarrow> World \<Rightarrow> error option \<times> Conn \<times> Request \<times> World" where
  "handleHTTPConns env c req sn w =
     (case AcquireResponse (responsePool w) of
        (resp, spool) \<Rightarrow>
          (case InitWithWriter resp (Some (AcquireWriter c)) sn of
             (Some e, resp1) \<Rightarrow>
               (Some e, c, req, w\<lparr>responsePool := ReleaseResponse resp1 spool\<rparr>)
           | (None, resp1) \<Rightarrow>
               (case clientDo env req resp1 of
                  (e, req2, resp2) \<Rightarrow>
                    (e,
                     c\<lparr>outgoing := (case writer resp2 of Some wr \<Rightarrow> wr | None \<Rightarrow> outgoing c)\<rparr>,
                     req2,
                     w\<lparr>responsePool := ReleaseResponse resp2 spool,
                       forwarded := forwarded w @ [req]\<rparr>))))"

definition handleHTTPSConns ::
  "Env \<Rightarrow> Conn \<Rightarrow> string \<Rightarrow> Sniffer \<Rightarrow> World \<Rightarrow> error option option \<times> Conn \<times> World" where
  "handleHTTPSConns env c hostPort sn w =
     (if ShouldDecryptHost env hostPort
      then (case decryptConnect env c hostPort sn w of (e, c1, _, w1) \<Rightarrow> (Some e, c1, w1))
      else (case tunnelConnect env c hostPort of (r, c1, _) \<Rightarrow> (r, c1, w)))"

text \<open>
  \<^verbatim>\<open>serveConn\<close>: the result is what it returned (\<open>None\<close> while a tunnel is still
  open), the connection and the shared state. The sniffer that the sniffer pool hands
  out has seen nothing yet. What the released reader had taken from the connection is
  gone from it.
\<close>

definition serveConn :: "Env \<Rightarrow> Conn \<Rightarrow> World \<Rightarrow> error option option \<times> Conn \<times> World" where
  "serveConn env c w =
     (case AcquireRequest (requestPool w) of
        (req, rpool) \<Rightarrow>
          (case InitWithProxyReader (Parse env) req (Some (AcquireReader c)) [] of
             (Some err, req1, rd) \<Rightarrow>
               (let c0 = (case rd of Some r \<Rightarrow> c\<lparr>incoming := feed r\<rparr> | None \<Rightarrow> c);
                    w1 = w\<lparr>requestPool := ReleaseRequest req1 rpool\<rparr>
                in if err = ErrNoHostProvided
                   then (case writeFastError (ServerDate env) (outgoing c0) StatusBadRequest
                                (''This is a proxy server. Does not respond to non-proxy requests.''
                                 @ [LF]) of
                           (Some e, wr) \<Rightarrow>
                             (Some (Some (Errorf ''fail to read http request header: ''
                                (Errorf ''fail to response non-proxy request : '' e))),
                              c0\<lparr>outgoing := wr\<rparr>, w1)
                         | (None, wr) \<Rightarrow>
                             (Some (Some (Errorf ''fail to read http request header: ''
                                (New ''client requests a non-proxy request''))),
                              c0\<lparr>outgoing := wr\<rparr>, w1))
                   else (Some (Some (Errorf ''fail to read http request header: '' err)), c0, w1))
           | (None, req1, rd) \<Rightarrow>
               (let c0 = (case rd of Some r \<Rightarrow> c\<lparr>incoming := feed r\<rparr> | None \<Rightarrow> c)
                in if \<not> IsConnect (reqLine req1)
                   then (case handleHTTPConns env c0 req1 [] (w\<lparr>requestPool := rpool\<rparr>) of
                           (e, c1, req2, w1) \<Rightarrow>
                             (Some e, c1,
                              w1\<lparr>requestPool := ReleaseRequest req2 (requestPool w1)\<rparr>))
                   else handleHTTPSConns env c0 (hostWithPort (reqLine req1)) []
                          (w\<lparr>requestPool := ReleaseRequest req1 rpool\<rparr>))))"

subsection \<open>The worker\<close>

text \<open>
  Modelled from the spec: \<^verbatim>\<open>server.WorkerPool\<close> is not among the source files. Of its
  workers the spec has "each worker pulls a connection from the ready channel, runs
  \<^verbatim>\<open>serve_conn\<close>, then becomes idle again" and "for every accepted connection, after
  \<^verbatim>\<open>serve_conn\<close> returns, the connection is closed". \<open>workerFunc\<close> is one such run of
  \<^verbatim>\<open>serveConn\<close> by a worker.
\<close>

definition workerFunc :: "Env \<Rightarrow> Conn \<Rightarrow> World \<Rightarrow> error option option \<times> Conn \<times> World" where
  "workerFunc env c w =
     (case serveConn env c w of
        (None, c1, w1) \<Rightarrow> (None, c1, w1)
      | (Some r, c1, w1) \<Rightarrow> (Some r, c1\<lparr>closed := True\<rparr>, w1))"

section \<open>Requests: binding, reset and recycling\<close>

text \<open>
  C7, as the code has it. \<^verbatim>\<open>initWithReader\<close> fails exactly when the request is already
  bound, or the reader supplied is nil, or a TLS request comes with an empty server
  name, or the request line does not parse. A failed call leaves the binding as it was:
  the reader field is still nil, unless the request was already bound, in which case it
  still holds the reader bound before; the TLS flag, the server name and the sniffer are
  untouched. A call that succeeds was made on an unbound request, binds it to the
  reader supplied and records the TLS flag and the server name, which is not empty when
  the flag is set. So a request is bound at most once until \<^verbatim>\<open>Reset\<close> unbinds it.
\<close>

theorem initWithReader_binds_once:
  assumes "initWithReader parse r rd sn tls hostPort serverName = (e, r', rd')"
  shows "(e \<noteq> None \<longleftrightarrow>
            reader r \<noteq> None \<or> rd = None \<or> (tls \<and> serverName = []) \<or>
            (\<exists>rd0. rd = Some rd0 \<and> fst (parse (reqLine r) rd0 hostPort) \<noteq> None)) \<and>
         (e \<noteq> None \<longrightarrow>
            reader r' = reader r \<and> isTLS r' = isTLS r \<and>
            tlsServerName r' = tlsServerName r \<and> sniffer r' = sniffer r) \<and>
         (e = None \<longrightarrow>
            reader r = None \<and> reader r' = rd' \<and> rd' \<noteq> None \<and> sniffer r' = sn \<and>
            isTLS r' = tls \<and> tlsServerName r' = serverName \<and>
            (isTLS r' \<longrightarrow> tlsServerName r' \<noteq> [])) \<and>
         reader (Reset r') = None"
  using assms
  by (auto simp: initWithReader_def Reset_def split: option.splits if_splits prod.splits)

theorem initWithReader_binds_once_witness:
  "fst (initWithReader (\<lambda>rl rd hp. (None, rl\<lparr>hostWithPort := hp\<rparr>, rd)) emptyRequest
          (Some \<lparr>buffered = ''GET / HTTP/1.1'', feed = [], rerr = EOF\<rparr>) []
          True ''example.test:443'' ''example.test'') = None \<and>
   tlsServerName (fst (snd (initWithReader (\<lambda>rl rd hp. (None, rl\<lparr>hostWithPort := hp\<rparr>, rd))
          emptyRequest (Some \<lparr>buffered = ''GET / HTTP/1.1'', feed = [], rerr = EOF\<rparr>) []
          True ''example.test:443'' ''example.test''))) = ''example.test'' \<and>
   fst (initWithReader (\<lambda>rl rd hp. (None, rl\<lparr>hostWithPort := hp\<rparr>, rd)) emptyRequest
          (Some \<lparr>buffered = ''GET / HTTP/1.1'', feed = [], rerr = EOF\<rparr>) []
          True ''example.test:443'' []) = Some (New ''empty tls server name provided'')"
  using initWithReader_binds_once
    [of "\<lambda>rl rd hp. (None, rl\<lparr>hostWithPort := hp\<rparr>, rd)" emptyRequest
        "Some \<lparr>buffered = ''GET / HTTP/1.1'', feed = [], rerr = EOF\<rparr>" "[]"
        True "''example.test:443''" "''example.test''"]
  by (simp add: initWithReader_def emptyRequest_def)

text \<open>
  The claim as it is worded says that the failed call leaves the reader nil also when
  the request was already bound. It does not: the request below is bound to a reader,
  the second initialisation fails, and the request still holds the first reader.
\<close>

theorem initWithReader_rebind_counterexample:
  "fst (initWithReader (\<lambda>rl rd hp. (None, rl, rd))
          (emptyRequest\<lparr>reader := Some \<lparr>buffered = ''GET'', feed = [], rerr = EOF\<rparr>\<rparr>)
          (Some \<lparr>buffered = ''POST'', feed = [], rerr = EOF\<rparr>) [] False [] [])
     = Some (New ''request already initialized'') \<and>
   reader (fst (snd (initWithReader (\<lambda>rl rd hp. (None, rl, rd))
          (emptyRequest\<lparr>reader := Some \<lparr>buffered = ''GET'', feed = [], rerr = EOF\<rparr>\<rparr>)
          (Some \<lparr>buffered = ''POST'', feed = [], rerr = EOF\<rparr>) [] False [] [])))
     = Some \<lparr>buffered = ''GET'', feed = [], rerr = EOF\<rparr> \<and>
   reader (fst (snd (initWithReader (\<lambda>rl rd hp. (None, rl, rd))
          (emptyRequest\<lparr>reader := Some \<lparr>buffered = ''GET'', feed = [], rerr = EOF\<rparr>\<rparr>)
          (Some \<lparr>buffered = ''POST'', feed = [], rerr = EOF\<rparr>) [] False [] [])))
     \<noteq> None"
  by (simp add: initWithReader_def emptyRequest_def)

text \<open>
  C10. \<^verbatim>\<open>Reset\<close> clears the reader, the request line and the header block, and nothing
  else: the TLS flag, the TLS server name and the sniffer stay. A request that went
  through \<^verbatim>\<open>ReleaseRequest\<close> and comes back from \<^verbatim>\<open>AcquireRequest\<close> therefore reports
  the TLS flag and server name of its previous use; they stay through a failed
  initialisation and are overwritten by a successful one.
\<close>

theorem Reset_keeps_tls_fields:
  "reader (Reset r) = None \<and>
   reqLine (Reset r) = RequestLine_Reset (reqLine r) \<and>
   header (Reset r) = Header_Reset (header r) \<and>
   isTLS (Reset r) = isTLS r \<and>
   tlsServerName (Reset r) = tlsServerName r \<and>
   sniffer (Reset r) = sniffer r \<and>
   snd (AcquireRequest (ReleaseRequest r pool)) = pool \<and>
   IsTLS (fst (AcquireRequest (ReleaseRequest r pool))) = IsTLS r \<and>
   TLSServerName (fst (AcquireRequest (ReleaseRequest r pool))) = TLSServerName r \<and>
   (case initWithReader parse (fst (AcquireRequest (ReleaseRequest r pool))) rd sn tls hostPort
           serverName of
      (None, r', _) \<Rightarrow> IsTLS r' = tls \<and> TLSServerName r' = serverName
    | (Some e, r', _) \<Rightarrow> IsTLS r' = IsTLS r \<and> TLSServerName r' = TLSServerName r)"
  by (auto simp: Reset_def AcquireRequest_def ReleaseRequest_def IsTLS_def TLSServerName_def
      initWithReader_def split: option.splits prod.splits)

theorem Reset_keeps_tls_fields_witness:
  "IsTLS (fst (AcquireRequest (ReleaseRequest
      (emptyRequest\<lparr>reader := Some \<lparr>buffered = [], feed = [], rerr = EOF\<rparr>,
                     isTLS := True, tlsServerName := ''example.test''\<rparr>) []))) \<and>
   TLSServerName (fst (AcquireRequest (ReleaseRequest
      (emptyRequest\<lparr>reader := Some \<lparr>buffered = [], feed = [], rerr = EOF\<rparr>,
                     isTLS := True, tlsServerName := ''example.test''\<rparr>) []))) = ''example.test'' \<and>
   reader (fst (AcquireRequest (ReleaseRequest
      (emptyRequest\<lparr>reader := Some \<lparr>buffered = [], feed = [], rerr = EOF\<rparr>,
                     isTLS := True, tlsServerName := ''example.test''\<rparr>) []))) = None"
  using Reset_keeps_tls_fields
    [of "emptyRequest\<lparr>reader := Some \<lparr>buffered = [], feed = [], rerr = EOF\<rparr>,
                       isTLS := True, tlsServerName := ''example.test''\<rparr>" "[]"]
  by (simp add: emptyRequest_def IsTLS_def TLSServerName_def Reset_def AcquireRequest_def
      ReleaseRequest_def)

section \<open>Response.ConnectionClose\<close>

text \<open>
  C9. \<^verbatim>\<open>Response.ConnectionClose()\<close> is false for every response, whatever its header
  block holds: also for one whose header block has the connection-close flag set, where
  the request's method of the same name answers true.
\<close>

theorem Response_ConnectionClose_always_false:
  "Response_ConnectionClose r = False \<and>
   Response_ConnectionClose (r\<lparr>respHeader := (respHeader r)\<lparr>IsConnectionClose := True\<rparr>\<rparr>) = False \<and>
   ConnectionClose (q\<lparr>header := (header q)\<lparr>IsConnectionClose := True\<rparr>\<rparr>) = True"
  by (simp add: Response_ConnectionClose_def ConnectionClose_def)

section \<open>C1: the fixed-size copier keeps to its budget\<close>

text \<open>
  C1, as the code has it. For every content length \<open>N > 0\<close>, \<^verbatim>\<open>copyBodyFixedSize\<close>
  consumes \<open>k \<le> N\<close> bytes of the source and writes a prefix \<open>w\<close> of the source's
  bytes, of length at most \<open>N\<close>, to the destination; the sniffer receives the bytes
  consumed. When it returns nil, it has consumed and written exactly \<open>N\<close> bytes. When
  the source ends before \<open>N\<close> bytes, and the destination accepts what it is given, it
  returns \<^verbatim>\<open>io.EOF\<close>, having written all the source had, fewer than \<open>N\<close> bytes. The
  error is the plain end-of-file sentinel, the one \<^verbatim>\<open>copyBodyIdentity\<close> turns into
  success; it is never \<^verbatim>\<open>io.ErrUnexpectedEOF\<close>. The call never panics.
\<close>

theorem copyBodyFixedSize_budget:
  assumes "0 < N" and "copyBodyFixedSize src dst N sn = (out, src', dst', sn')"
  shows "\<exists>k w. avail src' = drop k (avail src) \<and> int k \<le> N \<and> k \<le> length (avail src) \<and>
           written dst' = written dst @ w \<and> w = take (length w) (avail src) \<and>
           int (length w) \<le> N \<and> k \<le> length w \<and>
           bodyBytes sn' = bodyBytes sn @ take k (avail src) \<and>
           (out = Return None \<longrightarrow> int k = N \<and> int (length w) = N) \<and>
           (out = Return (Some EOF) \<longrightarrow>
              k = length (avail src) \<and> w = avail src \<and> int (length w) < N) \<and>
           (accepts dst (nat N) \<longrightarrow>
              out = (if N \<le> int (length (avail src)) then Return None
                     else Return (Some EOF))) \<and>
           out \<noteq> Return (Some ErrUnexpectedEOF) \<and> (\<forall>s. out \<noteq> Panic s)"
proof -
  from copyBodyFixedSize_general [OF assms] obtain k w where
    h: "avail src' = drop k (avail src)" "k \<le> length w"
       "w = take (length w) (avail src)" "length w \<le> length (avail src)"
       "int (length w) \<le> N" "written dst' = written dst @ w"
       "bodyBytes sn' = bodyBytes sn @ take k (avail src)"
       "out = Return None \<longrightarrow> int k = N"
       "out = Return (Some EOF) \<longrightarrow> k = length (avail src) \<and> int k < N"
       "\<forall>s. out \<noteq> Panic s" "out \<noteq> Return (Some ErrUnexpectedEOF)"
    by blast
  have acc: "accepts dst (nat N) \<longrightarrow>
      out = (if N \<le> int (length (avail src)) then Return None else Return (Some EOF))"
  proof
    assume a: "accepts dst (nat N)"
    have "min (nat N) (length (avail src)) \<le> nat N" by simp
    from copyBodyFixedSize_accepting [OF assms(1) a this assms(2)]
    show "out = (if N \<le> int (length (avail src)) then Return None else Return (Some EOF))"
      by simp
  qed
  have eof: "out = Return (Some EOF) \<longrightarrow>
      k = length (avail src) \<and> w = avail src \<and> int (length w) < N"
  proof
    assume "out = Return (Some EOF)"
    with h(9) have k: "k = length (avail src)" "int k < N" by simp_all
    with h(2,4) have "length w = length (avail src)" by simp
    with h(3) k show "k = length (avail src) \<and> w = avail src \<and> int (length w) < N"
      by simp
  qed
  have ok: "out = Return None \<longrightarrow> int k = N \<and> int (length w) = N"
    using h(8) h(2) h(5) by auto
  have kN: "int k \<le> N" using h(2,5) by simp
  have kl: "k \<le> length (avail src)" using h(2,4) by simp
  show ?thesis
    using h(1,3,5,6,7,2,10,11) acc eof ok kN kl
    by (intro exI [of _ k] exI [of _ w]) blast
qed

theorem copyBodyFixedSize_budget_witness:
  "(0::int) < 5 \<and>
   copyBodyFixedSize \<lparr>buffered = ''he'', feed = [''llo wor'', ''ld''], rerr = EOF\<rparr>
     \<lparr>written = [], room = None, werr = NetErr ''broken pipe''\<rparr> 5 [] =
   (Return None, \<lparr>buffered = '' wor'', feed = [''ld''], rerr = EOF\<rparr>,
    \<lparr>written = ''hello'', room = None, werr = NetErr ''broken pipe''\<rparr>,
    [Body ''he'', Body ''llo'']) \<and>
   avail \<lparr>buffered = '' wor'', feed = [''ld''], rerr = EOF\<rparr> =
     drop 5 (avail \<lparr>buffered = ''he'', feed = [''llo wor'', ''ld''], rerr = EOF\<rparr>)"
proof -
  have p: "(0::int) < 5" by simp
  have e: "copyBodyFixedSize \<lparr>buffered = ''he'', feed = [''llo wor'', ''ld''], rerr = EOF\<rparr>
     \<lparr>written = [], room = None, werr = NetErr ''broken pipe''\<rparr> 5 [] =
   (Return None, \<lparr>buffered = '' wor'', feed = [''ld''], rerr = EOF\<rparr>,
    \<lparr>written = ''hello'', room = None, werr = NetErr ''broken pipe''\<rparr>,
    [Body ''he'', Body ''llo''])"
    by (simp add: copyBodyFixedSize_code Peek.simps Write_def Let_def)
  from copyBodyFixedSize_budget [OF p e] p e show ?thesis
    by (simp add: avail_def)
qed

text \<open>
  The claim as it is worded has the copier report \<^verbatim>\<open>UnexpectedEOF\<close>. On a source that
  ends after two bytes of a five-byte body the code returns \<^verbatim>\<open>io.EOF\<close>, which is a
  different error value.
\<close>

theorem copyBodyFixedSize_eof_counterexample:
  "copyBodyFixedSize \<lparr>buffered = ''he'', feed = [], rerr = EOF\<rparr>
     \<lparr>written = [], room = None, werr = NetErr ''broken pipe''\<rparr> 5 [] =
   (Return (Some EOF), \<lparr>buffered = [], feed = [], rerr = EOF\<rparr>,
    \<lparr>written = ''he'', room = None, werr = NetErr ''broken pipe''\<rparr>, [Body ''he'']) \<and>
   fst (copyBodyFixedSize \<lparr>buffered = ''he'', feed = [], rerr = EOF\<rparr>
     \<lparr>written = [], room = None, werr = NetErr ''broken pipe''\<rparr> 5 [])
     \<noteq> Return (Some ErrUnexpectedEOF)"
  by (simp add: copyBodyFixedSize_code Peek.simps Write_def Let_def)

section \<open>C2: the chunked copier\<close>




section \<open>C3: the body mode\<close>

text \<open>
  \<^verbatim>\<open>copyBody\<close> tests the content length first: a header block that reports a positive
  content length selects the fixed-size copier, whatever its other accessors say.
\<close>

lemma copyBody_fixed_first:
  "0 < ContentLength hdr \<Longrightarrow>
     copyBody src dst hdr sn = copyBodyFixedSize src dst (ContentLength hdr) sn"
  by (simp add: copyBody_def)



section \<open>C4: the answer to a non-proxy request\<close>

lemma decimal_64: "decimal 64 = ''64''"
  by (simp add: decimal.simps [of 64] decimal.simps [of 6])

lemma decimal_400: "decimal 400 = ''400''"
  by (simp add: decimal.simps [of 400] decimal.simps [of 40] decimal.simps [of 4])

lemma writeFastError_unfailing:
  "room wr = None \<Longrightarrow>
     writeFastError date wr code msg =
       (None,
        wr\<lparr>written := written wr @ StatusLine code @
           ''Connection: close'' @ [CR, LF] @
           ''Date: '' @ date @ [CR, LF] @
           ''Content-Type: text/plain'' @ [CR, LF] @
           ''Content-Length: '' @ decimal (length msg) @ [CR, LF] @
           [CR, LF] @ msg\<rparr>)"
  by (simp add: writeFastError_def Write_def)

lemma InitWithProxyReader_NoHost:
  assumes "fst (InitWithProxyReader parse req (Some rd) sn) = Some ErrNoHostProvided"
  shows "\<exists>rl rd1. InitWithProxyReader parse req (Some rd) sn =
           (Some ErrNoHostProvided, req\<lparr>reqLine := rl\<rparr>, Some rd1)"
proof -
  obtain e rl rd1 where p: "parse (reqLine req) rd [] = (e, rl, rd1)"
    by (metis prod.exhaust)
  with assms show ?thesis
    by (cases e) (auto simp: InitWithProxyReader_def initWithReader_def split: if_splits)
qed

text \<open>
  C4. When the initialisation of the request fails with \<^verbatim>\<open>ErrNoHostProvided\<close> and the
  connection takes what is written to it, \<^verbatim>\<open>serveConn\<close> writes to the client exactly
  the status line of 400, the headers \<^verbatim>\<open>Connection: close\<close>, \<^verbatim>\<open>Date\<close> with the server's
  date, \<^verbatim>\<open>Content-Type: text/plain\<close> and \<^verbatim>\<open>Content-Length: 64\<close>, an empty line, and
  the message, whose length is 64 bytes. It returns the error of a non-proxy request,
  with the request back in the pool, and does not close the connection itself: the
  worker that ran it closes the connection when it has returned.
\<close>

theorem serveConn_non_proxy_request:
  "fst (InitWithProxyReader (Parse env) (fst (AcquireRequest (requestPool w)))
          (Some (AcquireReader c)) []) = Some ErrNoHostProvided \<and>
   room (outgoing c) = None \<longrightarrow>
     (\<exists>c1 w1.
        serveConn env c w =
          (Some (Some (Errorf ''fail to read http request header: ''
                         (New ''client requests a non-proxy request''))), c1, w1) \<and>
        written (outgoing c1) =
          written (outgoing c) @
          ''HTTP/1.1 400 Bad Request'' @ [CR, LF] @
          ''Connection: close'' @ [CR, LF] @
          ''Date: '' @ ServerDate env @ [CR, LF] @
          ''Content-Type: text/plain'' @ [CR, LF] @
          ''Content-Length: 64'' @ [CR, LF] @
          [CR, LF] @
          ''This is a proxy server. Does not respond to non-proxy requests.'' @ [LF] \<and>
        length (''This is a proxy server. Does not respond to non-proxy requests.'' @ [LF]) = 64 \<and>
        closed c1 = closed c \<and>
        length (requestPool w1) = max 1 (length (requestPool w)) \<and>
        reader (hd (requestPool w1)) = None \<and>
        forwarded w1 = forwarded w \<and>
        workerFunc env c w =
          (Some (Some (Errorf ''fail to read http request header: ''
                         (New ''client requests a non-proxy request''))),
           c1\<lparr>closed := True\<rparr>, w1))"
proof (intro impI)
  assume a: "fst (InitWithProxyReader (Parse env) (fst (AcquireRequest (requestPool w)))
          (Some (AcquireReader c)) []) = Some ErrNoHostProvided \<and>
   room (outgoing c) = None"
  obtain req rpool where q: "AcquireRequest (requestPool w) = (req, rpool)"
    by (metis prod.exhaust)
  with a have "fst (InitWithProxyReader (Parse env) req (Some (AcquireReader c)) []) =
      Some ErrNoHostProvided"
    by simp
  from InitWithProxyReader_NoHost [OF this] obtain rl rd1 where
    i: "InitWithProxyReader (Parse env) req (Some (AcquireReader c)) [] =
          (Some ErrNoHostProvided, req\<lparr>reqLine := rl\<rparr>, Some rd1)"
    by blast
  from a have rm: "room (outgoing (c\<lparr>incoming := feed rd1\<rparr>)) = None"
    by simp
  define c1 where "c1 = c\<lparr>incoming := feed rd1,
      outgoing := (outgoing c)\<lparr>written := written (outgoing c) @ StatusLine StatusBadRequest @
           ''Connection: close'' @ [CR, LF] @
           ''Date: '' @ ServerDate env @ [CR, LF] @
           ''Content-Type: text/plain'' @ [CR, LF] @
           ''Content-Length: '' @
             decimal (length (''This is a proxy server. Does not respond to non-proxy requests.''
                              @ [LF])) @ [CR, LF] @
           [CR, LF] @
           ''This is a proxy server. Does not respond to non-proxy requests.'' @ [LF]\<rparr>\<rparr>"
  define w1 where "w1 = w\<lparr>requestPool := ReleaseRequest (req\<lparr>reqLine := rl\<rparr>) rpool\<rparr>"
  have s: "serveConn env c w =
          (Some (Some (Errorf ''fail to read http request header: ''
                         (New ''client requests a non-proxy request''))), c1, w1)"
    using q i writeFastError_unfailing [OF rm]
    by (simp add: serveConn_def c1_def w1_def)
  have l: "length (''This is a proxy server. Does not respond to non-proxy requests.'' @ [LF])
             = 64"
    by simp
  have wr: "written (outgoing c1) =
          written (outgoing c) @
          ''HTTP/1.1 400 Bad Request'' @ [CR, LF] @
          ''Connection: close'' @ [CR, LF] @
          ''Date: '' @ ServerDate env @ [CR, LF] @
          ''Content-Type: text/plain'' @ [CR, LF] @
          ''Content-Length: 64'' @ [CR, LF] @
          [CR, LF] @
          ''This is a proxy server. Does not respond to non-proxy requests.'' @ [LF]"
    unfolding c1_def l
    by (simp add: StatusLine_def StatusBadRequest_def StatusMessage_def decimal_400 decimal_64)
  have cl: "closed c1 = closed c"
    by (simp add: c1_def)
  have pl: "length (requestPool w1) = max 1 (length (requestPool w))"
    using q by (auto simp: w1_def ReleaseRequest_def AcquireRequest_def split: list.splits)
  have rd: "reader (hd (requestPool w1)) = None"
    by (simp add: w1_def ReleaseRequest_def Reset_def)
  have fw: "forwarded w1 = forwarded w"
    by (simp add: w1_def)
  have wk: "workerFunc env c w =
          (Some (Some (Errorf ''fail to read http request header: ''
                         (New ''client requests a non-proxy request''))),
           c1\<lparr>closed := True\<rparr>, w1)"
    using s by (simp add: workerFunc_def)
  from s wr l cl pl rd fw wk show "\<exists>c1 w1.
        serveConn env c w =
          (Some (Some (Errorf ''fail to read http request header: ''
                         (New ''client requests a non-proxy request''))), c1, w1) \<and>
        written (outgoing c1) =
          written (outgoing c) @
          ''HTTP/1.1 400 Bad Request'' @ [CR, LF] @
          ''Connection: close'' @ [CR, LF] @
          ''Date: '' @ ServerDate env @ [CR, LF] @
          ''Content-Type: text/plain'' @ [CR, LF] @
          ''Content-Length: 64'' @ [CR, LF] @
          [CR, LF] @
          ''This is a proxy server. Does not respond to non-proxy requests.'' @ [LF] \<and>
        length (''This is a proxy server. Does not respond to non-proxy requests.'' @ [LF]) = 64 \<and>
        closed c1 = closed c \<and>
        length (requestPool w1) = max 1 (length (requestPool w)) \<and>
        reader (hd (requestPool w1)) = None \<and>
        forwarded w1 = forwarded w \<and>
        workerFunc env c w =
          (Some (Some (Errorf ''fail to read http request header: ''
                         (New ''client requests a non-proxy request''))),
           c1\<lparr>closed := True\<rparr>, w1)"
    by blast
qed

text \<open>
  A client that sends \<^verbatim>\<open>GET / HTTP/1.1\<close> with no Host header, on a parser that answers
  such a request line with \<^verbatim>\<open>ErrNoHostProvided\<close>: the answer carries
  \<^verbatim>\<open>Content-Length: 64\<close>.
\<close>

theorem serveConn_non_proxy_request_witness:
  "fst (InitWithProxyReader (\<lambda>rl rd hp. (Some ErrNoHostProvided, rl, rd\<lparr>feed := []\<rparr>))
          (fst (AcquireRequest []))
          (Some (AcquireReader
             \<lparr>incoming = [''GET / HTTP/1.1'' @ [CR, LF, CR, LF]], incomingErr = EOF,
              outgoing = \<lparr>written = [], room = None, werr = NetErr ''broken pipe''\<rparr>,
              closed = False\<rparr>)) []) = Some ErrNoHostProvided \<and>
   fst (serveConn
     \<lparr>Parse = (\<lambda>rl rd hp. (Some ErrNoHostProvided, rl, rd\<lparr>feed := []\<rparr>)),
      ServerDate = ''Mon, 02 Jan 2006 15:04:05 GMT'',
      ShouldDecryptHost = (\<lambda>h. False),
      Dial = (\<lambda>h. Inl (NetErr ''connection refused'')),
      schedule = [],
      SplitHostPort = (\<lambda>h. Inr h),
      GenCert = (\<lambda>ns. Inr \<lparr>names = ns\<rparr>),
      Handshake = (\<lambda>k. \<lparr>helloServerName = [], handshakeErr = None, plain = k\<rparr>),
      clientDo = (\<lambda>rq rs. (None, rq, rs))\<rparr>
     \<lparr>incoming = [''GET / HTTP/1.1'' @ [CR, LF, CR, LF]], incomingErr = EOF,
      outgoing = \<lparr>written = [], room = None, werr = NetErr ''broken pipe''\<rparr>,
      closed = False\<rparr>
     \<lparr>requestPool = [], responsePool = [], forwarded = []\<rparr>) =
     Some (Some (Errorf ''fail to read http request header: ''
                   (New ''client requests a non-proxy request''))) \<and>
   written (outgoing (fst (snd (serveConn
     \<lparr>Parse = (\<lambda>rl rd hp. (Some ErrNoHostProvided, rl, rd\<lparr>feed := []\<rparr>)),
      ServerDate = ''Mon, 02 Jan 2006 15:04:05 GMT'',
      ShouldDecryptHost = (\<lambda>h. False),
      Dial = (\<lambda>h. Inl (NetErr ''connection refused'')),
      schedule = [],
      SplitHostPort = (\<lambda>h. Inr h),
      GenCert = (\<lambda>ns. Inr \<lparr>names = ns\<rparr>),
      Handshake = (\<lambda>k. \<lparr>helloServerName = [], handshakeErr = None, plain = k\<rparr>),
      clientDo = (\<lambda>rq rs. (None, rq, rs))\<rparr>
     \<lparr>incoming = [''GET / HTTP/1.1'' @ [CR, LF, CR, LF]], incomingErr = EOF,
      outgoing = \<lparr>written = [], room = None, werr = NetErr ''broken pipe''\<rparr>,
      closed = False\<rparr>
     \<lparr>requestPool = [], responsePool = [], forwarded = []\<rparr>)))) =
     ''HTTP/1.1 400 Bad Request'' @ [CR, LF] @
     ''Connection: close'' @ [CR, LF] @
     ''Date: Mon, 02 Jan 2006 15:04:05 GMT'' @ [CR, LF] @
     ''Content-Type: text/plain'' @ [CR, LF] @
     ''Content-Length: 64'' @ [CR, LF] @
     [CR, LF] @
     ''This is a proxy server. Does not respond to non-proxy requests.'' @ [LF] \<and>
   closed (fst (snd (workerFunc
     \<lparr>Parse = (\<lambda>rl rd hp. (Some ErrNoHostProvided, rl, rd\<lparr>feed := []\<rparr>)),
      ServerDate = ''Mon, 02 Jan 2006 15:04:05 GMT'',
      ShouldDecryptHost = (\<lambda>h. False),
      Dial = (\<lambda>h. Inl (NetErr ''connection refused'')),
      schedule = [],
      SplitHostPort = (\<lambda>h. Inr h),
      GenCert = (\<lambda>ns. Inr \<lparr>names = ns\<rparr>),
      Handshake = (\<lambda>k. \<lparr>helloServerName = [], handshakeErr = None, plain = k\<rparr>),
      clientDo = (\<lambda>rq rs. (None, rq, rs))\<rparr>
     \<lparr>incoming = [''GET / HTTP/1.1'' @ [CR, LF, CR, LF]], incomingErr = EOF,
      outgoing = \<lparr>written = [], room = None, werr = NetErr ''broken pipe''\<rparr>,
      closed = False\<rparr>
     \<lparr>requestPool = [], responsePool = [], forwarded = []\<rparr>)))"
proof -
  have h: "fst (InitWithProxyReader (\<lambda>rl rd hp. (Some ErrNoHostProvided, rl, rd\<lparr>feed := []\<rparr>))
          (fst (AcquireRequest []))
          (Some (AcquireReader
             \<lparr>incoming = [''GET / HTTP/1.1'' @ [CR, LF, CR, LF]], incomingErr = EOF,
              outgoing = \<lparr>written = [], room = None, werr = NetErr ''broken pipe''\<rparr>,
              closed = False\<rparr>)) []) = Some ErrNoHostProvided"
    by (simp add: InitWithProxyReader_def initWithReader_def AcquireRequest_def
        emptyRequest_def AcquireReader_def)
  from serveConn_non_proxy_request
    [of "\<lparr>Parse = (\<lambda>rl rd hp. (Some ErrNoHostProvided, rl, rd\<lparr>feed := []\<rparr>)),
      ServerDate = ''Mon, 02 Jan 2006 15:04:05 GMT'',
      ShouldDecryptHost = (\<lambda>h. False),
      Dial = (\<lambda>h. Inl (NetErr ''connection refused'')),
      schedule = [],
      SplitHostPort = (\<lambda>h. Inr h),
      GenCert = (\<lambda>ns. Inr \<lparr>names = ns\<rparr>),
      Handshake = (\<lambda>k. \<lparr>helloServerName = [], handshakeErr = None, plain = k\<rparr>),
      clientDo = (\<lambda>rq rs. (None, rq, rs))\<rparr>"
     "\<lparr>requestPool = [], responsePool = [], forwarded = []\<rparr>"
     "\<lparr>incoming = [''GET / HTTP/1.1'' @ [CR, LF, CR, LF]], incomingErr = EOF,
      outgoing = \<lparr>written = [], room = None, werr = NetErr ''broken pipe''\<rparr>,
      closed = False\<rparr>"] h
  show ?thesis
    by (simp del: fst_conv snd_conv) auto
qed

text \<open>
  The claim as it is worded has \<^verbatim>\<open>Content-Length: 60\<close>. The message has 64 bytes and
  \<^verbatim>\<open>writeFastError\<close> prints its length: on the same connection the bytes written are
  not those of the claim.
\<close>

theorem serveConn_content_length_counterexample:
  "written (outgoing (fst (snd (serveConn
     \<lparr>Parse = (\<lambda>rl rd hp. (Some ErrNoHostProvided, rl, rd\<lparr>feed := []\<rparr>)),
      ServerDate = ''Mon, 02 Jan 2006 15:04:05 GMT'',
      ShouldDecryptHost = (\<lambda>h. False),
      Dial = (\<lambda>h. Inl (NetErr ''connection refused'')),
      schedule = [],
      SplitHostPort = (\<lambda>h. Inr h),
      GenCert = (\<lambda>ns. Inr \<lparr>names = ns\<rparr>),
      Handshake = (\<lambda>k. \<lparr>helloServerName = [], handshakeErr = None, plain = k\<rparr>),
      clientDo = (\<lambda>rq rs. (None, rq, rs))\<rparr>
     \<lparr>incoming = [''GET / HTTP/1.1'' @ [CR, LF, CR, LF]], incomingErr = EOF,
      outgoing = \<lparr>written = [], room = None, werr = NetErr ''broken pipe''\<rparr>,
      closed = False\<rparr>
     \<lparr>requestPool = [], responsePool = [], forwarded = []\<rparr>)))) \<noteq>
     ''HTTP/1.1 400 Bad Request'' @ [CR, LF] @
     ''Connection: close'' @ [CR, LF] @
     ''Date: Mon, 02 Jan 2006 15:04:05 GMT'' @ [CR, LF] @
     ''Content-Type: text/plain'' @ [CR, LF] @
     ''Content-Length: 60'' @ [CR, LF] @
     [CR, LF] @
     ''This is a proxy server. Does not respond to non-proxy requests.'' @ [LF] \<and>
   length (''This is a proxy server. Does not respond to non-proxy requests.'' @ [LF]) \<noteq> 60"
proof -
  have l: "length (''This is a proxy server. Does not respond to non-proxy requests.'' @ [LF])
             = 64"
    by simp
  have w: "writeFastError ''Mon, 02 Jan 2006 15:04:05 GMT''
             \<lparr>written = [], room = None, werr = NetErr ''broken pipe''\<rparr> StatusBadRequest
             (''This is a proxy server. Does not respond to non-proxy requests.'' @ [LF]) =
           (None,
            \<lparr>written = ''HTTP/1.1 400 Bad Request'' @ [CR, LF] @
               ''Connection: close'' @ [CR, LF] @
               ''Date: Mon, 02 Jan 2006 15:04:05 GMT'' @ [CR, LF] @
               ''Content-Type: text/plain'' @ [CR, LF] @
               ''Content-Length: 64'' @ [CR, LF] @
               [CR, LF] @
               ''This is a proxy server. Does not respond to non-proxy requests.'' @ [LF],
             room = None, werr = NetErr ''broken pipe''\<rparr>)"
    unfolding writeFastError_def l
    by (simp add: Write_def StatusLine_def StatusBadRequest_def StatusMessage_def decimal_400
        decimal_64)
  show ?thesis
    using w
    by (simp add: serveConn_def InitWithProxyReader_def initWithReader_def AcquireRequest_def
        emptyRequest_def AcquireReader_def)
qed

section \<open>C8: a ClientHello without a server name\<close>

lemma handShake_no_server_name:
  "helloServerName (Handshake env (snd (sendHTTPSProxyStatusOK c))) = [] \<Longrightarrow>
     fst (handShake env c) = []"
  by (cases "sendHTTPSProxyStatusOK c")
     (auto simp: handShake_def Let_def split: option.splits)

text \<open>
  C8. When the ClientHello that the client sends after the proxy's 200 carries no server
  name, \<^verbatim>\<open>decryptConnect\<close> returns an error, whether the TLS handshake succeeded or
  not: it takes no request from the pool, so that none is bound to the decrypted
  stream, hands nothing to \<^verbatim>\<open>client.Do\<close>, and leaves the shared state as it was. When
  the fake certificate was signed, the error is that of the missing server name. The
  error goes back through \<^verbatim>\<open>handleHTTPSConns\<close> to the caller, which drops the
  connection.
\<close>

theorem decryptConnect_no_server_name:
  "helloServerName (Handshake env (snd (sendHTTPSProxyStatusOK c))) = [] \<longrightarrow>
     (\<exists>e c1. decryptConnect env c hostPort sn w = (Some e, c1, None, w) \<and>
        (\<forall>crt. signFakeCert env hostPort = Inr crt \<longrightarrow>
           e = Errorf ''error occurred when handshaking with client: ''
                 (New (''client didn'' @ [CHR 0x27] @ ''t provide a target server name''))) \<and>
        (ShouldDecryptHost env hostPort \<longrightarrow>
           handleHTTPSConns env c hostPort sn w = (Some (Some e), c1, w)))"
proof (intro impI)
  assume "helloServerName (Handshake env (snd (sendHTTPSProxyStatusOK c))) = []"
  then have h: "fst (handShake env c) = []"
    by (rule handShake_no_server_name)
  obtain tsn hs c1 where hk: "handShake env c = (tsn, hs, c1)"
    by (metis prod.exhaust)
  with h have t: "tsn = []"
    by simp
  show "\<exists>e c1. decryptConnect env c hostPort sn w = (Some e, c1, None, w) \<and>
        (\<forall>crt. signFakeCert env hostPort = Inr crt \<longrightarrow>
           e = Errorf ''error occurred when handshaking with client: ''
                 (New (''client didn'' @ [CHR 0x27] @ ''t provide a target server name''))) \<and>
        (ShouldDecryptHost env hostPort \<longrightarrow>
           handleHTTPSConns env c hostPort sn w = (Some (Some e), c1, w))"
  proof (cases "signFakeCert env hostPort")
    case (Inl err)
    then show ?thesis
      by (simp add: decryptConnect_def handleHTTPSConns_def)
  next
    case (Inr crt)
    with hk t show ?thesis
      by (simp add: decryptConnect_def handleHTTPSConns_def)
  qed
qed

text \<open>
  A client whose TLS handshake succeeds although its ClientHello names no server: the
  handler returns the error, with the pools and the list of forwarded requests
  untouched.
\<close>

theorem decryptConnect_no_server_name_witness:
  "helloServerName
     (Handshake
        \<lparr>Parse = (\<lambda>rl rd hp. (None, rl, rd)),
         ServerDate = ''Mon, 02 Jan 2006 15:04:05 GMT'',
         ShouldDecryptHost = (\<lambda>h. True),
         Dial = (\<lambda>h. Inl (NetErr ''connection refused'')),
         schedule = [],
         SplitHostPort = (\<lambda>h. Inr (takeWhile (\<lambda>x. x \<noteq> CHR '':'') h)),
         GenCert = (\<lambda>ns. Inr \<lparr>names = ns\<rparr>),
         Handshake = (\<lambda>k. \<lparr>helloServerName = [], handshakeErr = None,
                            plain = k\<lparr>incoming := [''GET / HTTP/1.1'' @ [CR, LF, CR, LF]]\<rparr>\<rparr>),
         clientDo = (\<lambda>rq rs. (None, rq, rs))\<rparr>
        (snd (sendHTTPSProxyStatusOK
           \<lparr>incoming = [''tls client hello''], incomingErr = EOF,
            outgoing = \<lparr>written = [], room = None, werr = NetErr ''broken pipe''\<rparr>,
            closed = False\<rparr>))) = [] \<and>
   decryptConnect
     \<lparr>Parse = (\<lambda>rl rd hp. (None, rl, rd)),
      ServerDate = ''Mon, 02 Jan 2006 15:04:05 GMT'',
      ShouldDecryptHost = (\<lambda>h. True),
      Dial = (\<lambda>h. Inl (NetErr ''connection refused'')),
      schedule = [],
      SplitHostPort = (\<lambda>h. Inr (takeWhile (\<lambda>x. x \<noteq> CHR '':'') h)),
      GenCert = (\<lambda>ns. Inr \<lparr>names = ns\<rparr>),
      Handshake = (\<lambda>k. \<lparr>helloServerName = [], handshakeErr = None,
                         plain = k\<lparr>incoming := [''GET / HTTP/1.1'' @ [CR, LF, CR, LF]]\<rparr>\<rparr>),
      clientDo = (\<lambda>rq rs. (None, rq, rs))\<rparr>
     \<lparr>incoming = [''tls client hello''], incomingErr = EOF,
      outgoing = \<lparr>written = [], room = None, werr = NetErr ''broken pipe''\<rparr>,
      closed = False\<rparr>
     ''example.test:443'' []
     \<lparr>requestPool = [], responsePool = [], forwarded = []\<rparr> =
   (Some (Errorf ''error occurred when handshaking with client: ''
            (New (''client didn'' @ [CHR 0x27] @ ''t provide a target server name''))),
    \<lparr>incoming = [''tls client hello''], incomingErr = EOF,
     outgoing = \<lparr>written = ''HTTP/1.1 200 OK'' @ [CR, LF, CR, LF], room = None,
                 werr = NetErr ''broken pipe''\<rparr>,
     closed = False\<rparr>,
    None,
    \<lparr>requestPool = [], responsePool = [], forwarded = []\<rparr>)"
proof -
  have s: "signFakeCert
     \<lparr>Parse = (\<lambda>rl rd hp. (None, rl, rd)),
      ServerDate = ''Mon, 02 Jan 2006 15:04:05 GMT'',
      ShouldDecryptHost = (\<lambda>h. True),
      Dial = (\<lambda>h. Inl (NetErr ''connection refused'')),
      schedule = [],
      SplitHostPort = (\<lambda>h. Inr (takeWhile (\<lambda>x. x \<noteq> CHR '':'') h)),
      GenCert = (\<lambda>ns. Inr \<lparr>names = ns\<rparr>),
      Handshake = (\<lambda>k. \<lparr>helloServerName = [], handshakeErr = None,
                         plain = k\<lparr>incoming := [''GET / HTTP/1.1'' @ [CR, LF, CR, LF]]\<rparr>\<rparr>),
      clientDo = (\<lambda>rq rs. (None, rq, rs))\<rparr> ''example.test:443'' =
     Inr \<lparr>names = [''example.test'']\<rparr>"
    by (simp add: signFakeCert_def)
  have k: "handShake
     \<lparr>Parse = (\<lambda>rl rd hp. (None, rl, rd)),
      ServerDate = ''Mon, 02 Jan 2006 15:04:05 GMT'',
      ShouldDecryptHost = (\<lambda>h. True),
      Dial = (\<lambda>h. Inl (NetErr ''connection refused'')),
      schedule = [],
      SplitHostPort = (\<lambda>h. Inr (takeWhile (\<lambda>x. x \<noteq> CHR '':'') h)),
      GenCert = (\<lambda>ns. Inr \<lparr>names = ns\<rparr>),
      Handshake = (\<lambda>k. \<lparr>helloServerName = [], handshakeErr = None,
                         plain = k\<lparr>incoming := [''GET / HTTP/1.1'' @ [CR, LF, CR, LF]]\<rparr>\<rparr>),
      clientDo = (\<lambda>rq rs. (None, rq, rs))\<rparr>
     \<lparr>incoming = [''tls client hello''], incomingErr = EOF,
      outgoing = \<lparr>written = [], room = None, werr = NetErr ''broken pipe''\<rparr>,
      closed = False\<rparr> =
    ([],
     Inr \<lparr>incoming = [''GET / HTTP/1.1'' @ [CR, LF, CR, LF]], incomingErr = EOF,
          outgoing = \<lparr>written = ''HTTP/1.1 200 OK'' @ [CR, LF, CR, LF], room = None,
                      werr = NetErr ''broken pipe''\<rparr>,
          closed = False\<rparr>,
     \<lparr>incoming = [''tls client hello''], incomingErr = EOF,
      outgoing = \<lparr>written = ''HTTP/1.1 200 OK'' @ [CR, LF, CR, LF], room = None,
                  werr = NetErr ''broken pipe''\<rparr>,
      closed = False\<rparr>)"
    by (simp add: handShake_def sendHTTPSProxyStatusOK_def WriteWithValidation_def Write_def)
  have h: "helloServerName
     (Handshake
        \<lparr>Parse = (\<lambda>rl rd hp. (None, rl, rd)),
         ServerDate = ''Mon, 02 Jan 2006 15:04:05 GMT'',
         ShouldDecryptHost = (\<lambda>h. True),
         Dial = (\<lambda>h. Inl (NetErr ''connection refused'')),
         schedule = [],
         SplitHostPort = (\<lambda>h. Inr (takeWhile (\<lambda>x. x \<noteq> CHR '':'') h)),
         GenCert = (\<lambda>ns. Inr \<lparr>names = ns\<rparr>),
         Handshake = (\<lambda>k. \<lparr>helloServerName = [], handshakeErr = None,
                            plain = k\<lparr>incoming := [''GET / HTTP/1.1'' @ [CR, LF, CR, LF]]\<rparr>\<rparr>),
         clientDo = (\<lambda>rq rs. (None, rq, rs))\<rparr>
        (snd (sendHTTPSProxyStatusOK
           \<lparr>incoming = [''tls client hello''], incomingErr = EOF,
            outgoing = \<lparr>written = [], room = None, werr = NetErr ''broken pipe''\<rparr>,
            closed = False\<rparr>))) = []"
    by simp
  have c: "fst (snd (decryptConnect
     \<lparr>Parse = (\<lambda>rl rd hp. (None, rl, rd)),
      ServerDate = ''Mon, 02 Jan 2006 15:04:05 GMT'',
      ShouldDecryptHost = (\<lambda>h. True),
      Dial = (\<lambda>h. Inl (NetErr ''connection refused'')),
      schedule = [],
      SplitHostPort = (\<lambda>h. Inr (takeWhile (\<lambda>x. x \<noteq> CHR '':'') h)),
      GenCert = (\<lambda>ns. Inr \<lparr>names = ns\<rparr>),
      Handshake = (\<lambda>k. \<lparr>helloServerName = [], handshakeErr = None,
                         plain = k\<lparr>incoming := [''GET / HTTP/1.1'' @ [CR, LF, CR, LF]]\<rparr>\<rparr>),
      clientDo = (\<lambda>rq rs. (None, rq, rs))\<rparr>
     \<lparr>incoming = [''tls client hello''], incomingErr = EOF,
      outgoing = \<lparr>written = [], room = None, werr = NetErr ''broken pipe''\<rparr>,
      closed = False\<rparr>
     ''example.test:443'' []
     \<lparr>requestPool = [], responsePool = [], forwarded = []\<rparr>)) =
    \<lparr>incoming = [''tls client hello''], incomingErr = EOF,
     outgoing = \<lparr>written = ''HTTP/1.1 200 OK'' @ [CR, LF, CR, LF], room = None,
                 werr = NetErr ''broken pipe''\<rparr>,
     closed = False\<rparr>"
    using s k by (simp add: decryptConnect_def)
  from decryptConnect_no_server_name
    [of "\<lparr>Parse = (\<lambda>rl rd hp. (None, rl, rd)),
      ServerDate = ''Mon, 02 Jan 2006 15:04:05 GMT'',
      ShouldDecryptHost = (\<lambda>h. True),
      Dial = (\<lambda>h. Inl (NetErr ''connection refused'')),
      schedule = [],
      SplitHostPort = (\<lambda>h. Inr (takeWhile (\<lambda>x. x \<noteq> CHR '':'') h)),
      GenCert = (\<lambda>ns. Inr \<lparr>names = ns\<rparr>),
      Handshake = (\<lambda>k. \<lparr>helloServerName = [], handshakeErr = None,
                         plain = k\<lparr>incoming := [''GET / HTTP/1.1'' @ [CR, LF, CR, LF]]\<rparr>\<rparr>),
      clientDo = (\<lambda>rq rs. (None, rq, rs))\<rparr>"
     "\<lparr>incoming = [''tls client hello''], incomingErr = EOF,
      outgoing = \<lparr>written = [], room = None, werr = NetErr ''broken pipe''\<rparr>,
      closed = False\<rparr>"
     "''example.test:443''" "[]"
     "\<lparr>requestPool = [], responsePool = [], forwarded = []\<rparr>"] h s c
  show ?thesis
    by (simp del: fst_conv snd_conv) auto
qed

end
